theory Spec2Isabelle
  imports Complex_Main "HOL-Library.AList"
begin

section \<open>Documents of the Meteo-France REST API\<close>

text \<open>
  The wrappers \<^verbatim>\<open>Rain\<close> (model/rain.py) and \<^verbatim>\<open>Snow\<close> (model/snow.py) hold one
  decoded JSON document each and index into it by string keys. The shape of a document is
  declared by the \<^verbatim>\<open>TypedDict\<close> classes of the two modules. A \<^verbatim>\<open>TypedDict\<close> is an
  ordinary dictionary at run time: nothing checks that a key is there, and \<^verbatim>\<open>d["k"]\<close>
  raises \<^verbatim>\<open>KeyError\<close> when it is not. Each class is therefore a record whose fields are
  options: \<open>None\<close> is an absent key, \<open>Some v\<close> a key bound to a value of the declared
  type. Field names carry a prefix for their class, since several classes use the same
  key (\<^verbatim>\<open>time\<close>, \<^verbatim>\<open>type\<close>, \<^verbatim>\<open>altitude\<close>, \<^verbatim>\<open>value\<close>, \<^verbatim>\<open>properties\<close>).
\<close>

text \<open>
  The exceptions: \<^verbatim>\<open>KeyError\<close> of a key, the \<^verbatim>\<open>InvalidTimezone\<close> of the specification
  for a zone name, and \<^verbatim>\<open>ValueError\<close> for any other failure of the time helper (no
  code of the two modules raises it; it is there for a helper that fails at some instants).
\<close>

datatype error = KeyError string | InvalidTimezone string | ValueError string

text \<open>\<^verbatim>\<open>d[k]\<close> for a dictionary \<^verbatim>\<open>d\<close>: the second argument is the field of key \<^verbatim>\<open>k\<close>.\<close>

definition getitem :: "string \<Rightarrow> 'a option \<Rightarrow> error + 'a" where
  "getitem k field = (case field of None \<Rightarrow> Inl (KeyError k) | Some v \<Rightarrow> Inr v)"

text \<open>Sequencing: an exception raised by the first computation ends the whole one.\<close>

definition ebind :: "error + 'a \<Rightarrow> ('a \<Rightarrow> error + 'b) \<Rightarrow> error + 'b" where
  "ebind m f = (case m of Inl e \<Rightarrow> Inl e | Inr v \<Rightarrow> f v)"

subsection \<open>model/rain.py\<close>

record Geometry =
  g_type :: "string option"
  g_coordinates :: "real list option"

record ForecastData =
  f_time :: "int option"
  f_rain_intensity :: "int option"
  f_rain_intensity_description :: "string option"

record RainPropertiesData =
  rp_altitude :: "int option"
  rp_name :: "string option"
  rp_country :: "string option"
  rp_french_department :: "string option"
  rp_rain_product_available :: "int option"
  rp_timezone :: "string option"
  rp_confidence :: "int option"
  rp_forecast :: "ForecastData list option"

record RainData =
  rd_update_time :: "int option"
  rd_type :: "string option"
  rd_geometry :: "Geometry option"
  rd_properties :: "RainPropertiesData option"

record Rain =
  rain_raw_data :: RainData

text \<open>\<^verbatim>\<open>Rain.__init__\<close>: stores the document; no key is read.\<close>

definition Rain_init :: "RainData \<Rightarrow> Rain" where
  "Rain_init raw_data = \<lparr>rain_raw_data = raw_data\<rparr>"

definition geometry :: "Rain \<Rightarrow> error + Geometry" where
  "geometry self = getitem ''geometry'' (rd_geometry (rain_raw_data self))"

definition altitude :: "Rain \<Rightarrow> error + int" where
  "altitude self =
     ebind (getitem ''properties'' (rd_properties (rain_raw_data self)))
       (\<lambda>p. getitem ''altitude'' (rp_altitude p))"

definition location_name :: "Rain \<Rightarrow> error + string" where
  "location_name self =
     ebind (getitem ''properties'' (rd_properties (rain_raw_data self)))
       (\<lambda>p. getitem ''name'' (rp_name p))"

definition country :: "Rain \<Rightarrow> error + string" where
  "country self =
     ebind (getitem ''properties'' (rd_properties (rain_raw_data self)))
       (\<lambda>p. getitem ''country'' (rp_country p))"

definition french_department :: "Rain \<Rightarrow> error + string" where
  "french_department self =
     ebind (getitem ''properties'' (rd_properties (rain_raw_data self)))
       (\<lambda>p. getitem ''french_department'' (rp_french_department p))"

definition rain_product_available :: "Rain \<Rightarrow> error + int" where
  "rain_product_available self =
     ebind (getitem ''properties'' (rd_properties (rain_raw_data self)))
       (\<lambda>p. getitem ''rain_product_available'' (rp_rain_product_available p))"

definition timezone :: "Rain \<Rightarrow> error + string" where
  "timezone self =
     ebind (getitem ''properties'' (rd_properties (rain_raw_data self)))
       (\<lambda>p. getitem ''timezone'' (rp_timezone p))"

definition confidence :: "Rain \<Rightarrow> error + int" where
  "confidence self =
     ebind (getitem ''properties'' (rd_properties (rain_raw_data self)))
       (\<lambda>p. getitem ''confidence'' (rp_confidence p))"

definition forecasts :: "Rain \<Rightarrow> error + ForecastData list" where
  "forecasts self =
     ebind (getitem ''properties'' (rd_properties (rain_raw_data self)))
       (\<lambda>p. getitem ''forecast'' (rp_forecast p))"

text \<open>
  \<^verbatim>\<open>timestamp_to_locale_time\<close> calls \<^verbatim>\<open>timestamp_to_dateime_with_locale_tz\<close> of
  \<^verbatim>\<open>meteofrance_api.helpers\<close>, a module that is not among the sources. The methods
  that reach it take it as the parameter \<open>localize\<close>: a function from a UNIX timestamp
  and a zone name to a localized time of some type \<open>'dt\<close>, or to an error. The argument
  \<^verbatim>\<open>timestamp\<close> is evaluated by the caller; the property \<^verbatim>\<open>self.timezone\<close> is read
  here, before the helper runs.
\<close>

definition timestamp_to_locale_time ::
    "(int \<Rightarrow> string \<Rightarrow> error + 'dt) \<Rightarrow> Rain \<Rightarrow> int \<Rightarrow> error + 'dt" where
  "timestamp_to_locale_time localize self timestamp =
     ebind (timezone self) (\<lambda>tz. localize timestamp tz)"

definition update_time :: "(int \<Rightarrow> string \<Rightarrow> error + 'dt) \<Rightarrow> Rain \<Rightarrow> error + 'dt" where
  "update_time localize self =
     ebind (getitem ''update_time'' (rd_update_time (rain_raw_data self)))
       (\<lambda>t. timestamp_to_locale_time localize self t)"

text \<open>
  The loop of \<^verbatim>\<open>next_rain_date_locale\<close> over the entries that are left. One round reads
  \<^verbatim>\<open>forecast["time"]\<close> (\<^verbatim>\<open>int\<close> of an \<^verbatim>\<open>int\<close> is the same number), localizes it, and only
  then reads and tests \<^verbatim>\<open>forecast["rain_intensity"]\<close>.
\<close>

fun next_rain_date_locale_loop ::
    "(int \<Rightarrow> string \<Rightarrow> error + 'dt) \<Rightarrow> Rain \<Rightarrow> ForecastData list \<Rightarrow> error + 'dt option" where
  "next_rain_date_locale_loop localize self [] = Inr None"
| "next_rain_date_locale_loop localize self (forecast # rest) =
     ebind (getitem ''time'' (f_time forecast)) (\<lambda>t.
     ebind (timestamp_to_locale_time localize self t) (\<lambda>forecast_time.
     ebind (getitem ''rain_intensity'' (f_rain_intensity forecast)) (\<lambda>rain_intensity.
       if rain_intensity > 1 then Inr (Some forecast_time)
       else next_rain_date_locale_loop localize self rest)))"

definition next_rain_date_locale ::
    "(int \<Rightarrow> string \<Rightarrow> error + 'dt) \<Rightarrow> Rain \<Rightarrow> error + 'dt option" where
  "next_rain_date_locale localize self =
     ebind (forecasts self) (next_rain_date_locale_loop localize self)"

text \<open>
  Modelled from the spec: the helper \<^verbatim>\<open>timestamp_to_dateime_with_locale_tz\<close> of
  \<^verbatim>\<open>meteofrance_api.helpers\<close> is missing from the sources. The spec (4.1, TimeLocalizer)
  gives its contract: it converts the instant to the local wall-clock time of the named
  zone, with the offset in force at that instant, and fails with \<^verbatim>\<open>InvalidTimezone\<close>
  when the name is not a recognized zone identifier. The zone database is the parameter
  \<open>zones\<close>: a recognized name is bound to the function giving the zone's offset from UTC,
  in seconds, at an instant.
\<close>

record datetime =
  dt_timestamp :: int
  dt_utcoffset :: int
  dt_tzname :: string

definition timestamp_to_dateime_with_locale_tz ::
    "(string \<Rightarrow> (int \<Rightarrow> int) option) \<Rightarrow> int \<Rightarrow> string \<Rightarrow> error + datetime" where
  "timestamp_to_dateime_with_locale_tz zones timestamp local_tz =
     (case zones local_tz of
        None \<Rightarrow> Inl (InvalidTimezone local_tz)
      | Some utcoffset \<Rightarrow>
          Inr \<lparr>dt_timestamp = timestamp, dt_utcoffset = utcoffset timestamp,
               dt_tzname = local_tz\<rparr>)"

subsection \<open>model/snow.py\<close>

record Location =
  loc_location_type :: "string option"
  loc_value :: "string option"

text \<open>\<^verbatim>\<open>risk_evolution\<close> is declared \<^verbatim>\<open>Union[None, str]\<close>: the key may be bound to \<^verbatim>\<open>None\<close>.\<close>

record AvalancheRiskPerLocation =
  arl_avalanche_risk :: "int option"
  arl_risk_evolution :: "string option option"
  arl_location :: "Location option"

record MassifAvalancheRisk =
  mar_description :: "string option"
  mar_avalanche_risk_max :: "int option"
  mar_time :: "string option"
  mar_dangerous_exposition :: "string list option"
  mar_avalanche_risk_per_location :: "AvalancheRiskPerLocation list option"

record SnowDepth =
  sd_altitude :: "int option"
  sd_date :: "string option"
  sd_value :: "int option"

record FreshSnowPerExposition =
  fs_time :: "string option"
  fs_exposition :: "string option"
  fs_fresh_snow_depth :: "SnowDepth list option"

record TotalSnowPerExposition =
  ts_time :: "string option"
  ts_exposition :: "string option"
  ts_snow_limit :: "int option"
  ts_total_snow_depth :: "SnowDepth list option"

record SnowPropertiesData =
  sp_massif_name :: "string option"
  sp_massif_altitude_min :: "int option"
  sp_massif_altitude_max :: "int option"
  sp_massif_avalanche_risk :: "MassifAvalancheRisk option"
  sp_fresh_snow_per_exposition :: "FreshSnowPerExposition list option"
  sp_avalanche_report :: "string option"
  sp_total_snow_per_exposition :: "TotalSnowPerExposition list option"

record SnowData =
  s_type :: "string option"
  s_update_time :: "string option"
  s_properties :: "SnowPropertiesData option"

record Snow =
  snow_raw_data :: SnowData

text \<open>\<^verbatim>\<open>Snow.__init__\<close>: stores the document; no key is read.\<close>

definition Snow_init :: "SnowData \<Rightarrow> Snow" where
  "Snow_init raw_data = \<lparr>snow_raw_data = raw_data\<rparr>"

definition get_massif_name :: "Snow \<Rightarrow> error + string" where
  "get_massif_name self =
     ebind (getitem ''properties'' (s_properties (snow_raw_data self)))
       (\<lambda>p. getitem ''massif_name'' (sp_massif_name p))"

definition get_max_avalanche_risk :: "Snow \<Rightarrow> error + int" where
  "get_max_avalanche_risk self =
     ebind (getitem ''properties'' (s_properties (snow_raw_data self))) (\<lambda>p.
     ebind (getitem ''massif_avalanche_risk'' (sp_massif_avalanche_risk p)) (\<lambda>m.
       getitem ''avalanche_risk_max'' (mar_avalanche_risk_max m)))"

text \<open>
  \<^verbatim>\<open>get_snow_depth_at_altitude\<close>: the inner loop over one exposition's depth records
  gives \<open>Some v\<close> when it returns \<open>v\<close> from the method and \<open>None\<close> when it runs to its
  end, and then the outer loop goes on with the next exposition. The parameter
  \<^verbatim>\<open>altitude\<close> is written \<open>alt\<close>: \<open>altitude\<close> is the property of \<^verbatim>\<open>Rain\<close>.
\<close>

fun get_snow_depth_at_altitude_inner :: "int \<Rightarrow> SnowDepth list \<Rightarrow> error + int option" where
  "get_snow_depth_at_altitude_inner alt [] = Inr None"
| "get_snow_depth_at_altitude_inner alt (depth # rest) =
     ebind (getitem ''altitude'' (sd_altitude depth)) (\<lambda>a.
       if a = alt
       then ebind (getitem ''value'' (sd_value depth)) (\<lambda>v. Inr (Some v))
       else get_snow_depth_at_altitude_inner alt rest)"

fun get_snow_depth_at_altitude_outer ::
    "int \<Rightarrow> TotalSnowPerExposition list \<Rightarrow> error + int option" where
  "get_snow_depth_at_altitude_outer alt [] = Inr None"
| "get_snow_depth_at_altitude_outer alt (snow_depth_info # rest) =
     ebind (getitem ''total_snow_depth'' (ts_total_snow_depth snow_depth_info)) (\<lambda>depths.
     ebind (get_snow_depth_at_altitude_inner alt depths) (\<lambda>found.
       case found of
         Some v \<Rightarrow> Inr (Some v)
       | None \<Rightarrow> get_snow_depth_at_altitude_outer alt rest))"

definition get_snow_depth_at_altitude :: "Snow \<Rightarrow> int \<Rightarrow> error + int option" where
  "get_snow_depth_at_altitude self alt =
     ebind (getitem ''properties'' (s_properties (snow_raw_data self))) (\<lambda>p.
     ebind (getitem ''total_snow_per_exposition'' (sp_total_snow_per_exposition p))
       (get_snow_depth_at_altitude_outer alt))"

text \<open>
  \<^verbatim>\<open>get_available_altitudes\<close>: the local \<^verbatim>\<open>set()\<close> is a set of integers, threaded
  through both loops; \<^verbatim>\<open>sorted\<close> lists its members in ascending order.
\<close>

fun get_available_altitudes_inner :: "int set \<Rightarrow> SnowDepth list \<Rightarrow> error + int set" where
  "get_available_altitudes_inner altitudes [] = Inr altitudes"
| "get_available_altitudes_inner altitudes (depth_info # rest) =
     ebind (getitem ''altitude'' (sd_altitude depth_info)) (\<lambda>a.
       get_available_altitudes_inner (insert a altitudes) rest)"

fun get_available_altitudes_outer ::
    "int set \<Rightarrow> TotalSnowPerExposition list \<Rightarrow> error + int set" where
  "get_available_altitudes_outer altitudes [] = Inr altitudes"
| "get_available_altitudes_outer altitudes (exposition # rest) =
     ebind (getitem ''total_snow_depth'' (ts_total_snow_depth exposition)) (\<lambda>depths.
     ebind (get_available_altitudes_inner altitudes depths) (\<lambda>altitudes'.
       get_available_altitudes_outer altitudes' rest))"

definition get_available_altitudes :: "Snow \<Rightarrow> error + int list" where
  "get_available_altitudes self =
     ebind (getitem ''properties'' (s_properties (snow_raw_data self))) (\<lambda>p.
     ebind (getitem ''total_snow_per_exposition'' (sp_total_snow_per_exposition p)) (\<lambda>expositions.
     ebind (get_available_altitudes_outer {} expositions) (\<lambda>altitudes.
       Inr (sorted_list_of_set altitudes))))"

fun get_avalanche_risk_by_location_value_loop ::
    "string \<Rightarrow> AvalancheRiskPerLocation list \<Rightarrow> error + int option" where
  "get_avalanche_risk_by_location_value_loop location_value [] = Inr None"
| "get_avalanche_risk_by_location_value_loop location_value (risk # rest) =
     ebind (getitem ''location'' (arl_location risk)) (\<lambda>l.
     ebind (getitem ''value'' (loc_value l)) (\<lambda>v.
       if v = location_value
       then ebind (getitem ''avalanche_risk'' (arl_avalanche_risk risk)) (\<lambda>r. Inr (Some r))
       else get_avalanche_risk_by_location_value_loop location_value rest))"

definition get_avalanche_risk_by_location_value :: "Snow \<Rightarrow> string \<Rightarrow> error + int option" where
  "get_avalanche_risk_by_location_value self location_value =
     ebind (getitem ''properties'' (s_properties (snow_raw_data self))) (\<lambda>p.
     ebind (getitem ''massif_avalanche_risk'' (sp_massif_avalanche_risk p)) (\<lambda>m.
     ebind (getitem ''avalanche_risk_per_location'' (mar_avalanche_risk_per_location m))
       (get_avalanche_risk_by_location_value_loop location_value)))"

text \<open>
  \<^verbatim>\<open>get_snow_depths\<close> appends one new dictionary with the three keys \<^verbatim>\<open>exposition\<close>,
  \<^verbatim>\<open>altitude\<close> and \<^verbatim>\<open>total_snow_depth\<close> per depth record.
\<close>

record SnowDepthEntry =
  sde_exposition :: string
  sde_altitude :: int
  sde_total_snow_depth :: int

fun get_snow_depths_inner ::
    "string \<Rightarrow> SnowDepthEntry list \<Rightarrow> SnowDepth list \<Rightarrow> error + SnowDepthEntry list" where
  "get_snow_depths_inner exposition snow_depth_list [] = Inr snow_depth_list"
| "get_snow_depths_inner exposition snow_depth_list (depth_data # rest) =
     ebind (getitem ''altitude'' (sd_altitude depth_data)) (\<lambda>a.
     ebind (getitem ''value'' (sd_value depth_data)) (\<lambda>v.
       get_snow_depths_inner exposition
         (snow_depth_list @
            [\<lparr>sde_exposition = exposition, sde_altitude = a, sde_total_snow_depth = v\<rparr>])
         rest))"

fun get_snow_depths_outer ::
    "SnowDepthEntry list \<Rightarrow> TotalSnowPerExposition list \<Rightarrow> error + SnowDepthEntry list" where
  "get_snow_depths_outer snow_depth_list [] = Inr snow_depth_list"
| "get_snow_depths_outer snow_depth_list (exposition_data # rest) =
     ebind (getitem ''exposition'' (ts_exposition exposition_data)) (\<lambda>exposition.
     ebind (getitem ''total_snow_depth'' (ts_total_snow_depth exposition_data)) (\<lambda>depths.
     ebind (get_snow_depths_inner exposition snow_depth_list depths) (\<lambda>snow_depth_list'.
       get_snow_depths_outer snow_depth_list' rest)))"

definition get_snow_depths :: "Snow \<Rightarrow> error + SnowDepthEntry list" where
  "get_snow_depths self =
     ebind (getitem ''properties'' (s_properties (snow_raw_data self))) (\<lambda>p.
     ebind (getitem ''total_snow_per_exposition'' (sp_total_snow_per_exposition p))
       (get_snow_depths_outer []))"

text \<open>
  A dictionary built by a method is an association list in insertion order.
  \<^verbatim>\<open>d[k] = v\<close> is \<open>AList.update k v d\<close>: the value of a key that is there is replaced
  where it stands, a new key goes to the end, as in Python.
\<close>

type_synonym ('k, 'v) dict = "('k \<times> 'v) list"

fun get_snow_limits_loop ::
    "(string, int) dict \<Rightarrow> TotalSnowPerExposition list \<Rightarrow> error + (string, int) dict" where
  "get_snow_limits_loop snow_limits [] = Inr snow_limits"
| "get_snow_limits_loop snow_limits (exposition_data # rest) =
     ebind (getitem ''exposition'' (ts_exposition exposition_data)) (\<lambda>exposition.
     ebind (getitem ''snow_limit'' (ts_snow_limit exposition_data)) (\<lambda>snow_limit.
       get_snow_limits_loop (AList.update exposition snow_limit snow_limits) rest))"

definition get_snow_limits :: "Snow \<Rightarrow> error + (string, int) dict" where
  "get_snow_limits self =
     ebind (getitem ''properties'' (s_properties (snow_raw_data self))) (\<lambda>p.
     ebind (getitem ''total_snow_per_exposition'' (sp_total_snow_per_exposition p))
       (get_snow_limits_loop []))"

fun get_avalanche_risks_loop ::
    "(string, int) dict \<Rightarrow> AvalancheRiskPerLocation list \<Rightarrow> error + (string, int) dict" where
  "get_avalanche_risks_loop risks_map [] = Inr risks_map"
| "get_avalanche_risks_loop risks_map (risk # rest) =
     ebind (getitem ''location'' (arl_location risk)) (\<lambda>l.
     ebind (getitem ''value'' (loc_value l)) (\<lambda>location_value.
     ebind (getitem ''avalanche_risk'' (arl_avalanche_risk risk)) (\<lambda>r.
       get_avalanche_risks_loop (AList.update location_value r risks_map) rest)))"

definition get_avalanche_risks :: "Snow \<Rightarrow> error + (string, int) dict" where
  "get_avalanche_risks self =
     ebind (getitem ''properties'' (s_properties (snow_raw_data self))) (\<lambda>p.
     ebind (getitem ''massif_avalanche_risk'' (sp_massif_avalanche_risk p)) (\<lambda>m.
     ebind (getitem ''avalanche_risk_per_location'' (mar_avalanche_risk_per_location m))
       (get_avalanche_risks_loop [])))"

text \<open>
  \<^verbatim>\<open>get_fresh_snow\<close>. The body of the inner loop, once its three keys are read: an empty
  inner dictionary is stored under a date that is not a key yet, then
  \<^verbatim>\<open>fresh_snow_map[date][(altitude, exposition)] = value\<close> stores into the inner
  dictionary found under the date.
\<close>

type_synonym fresh_snow_map = "(string, (int \<times> string, int) dict) dict"

definition fresh_snow_store ::
    "string \<Rightarrow> int \<Rightarrow> string \<Rightarrow> int \<Rightarrow> fresh_snow_map \<Rightarrow> fresh_snow_map" where
  "fresh_snow_store date alt exposition v fresh_snow_map =
     (let fresh_snow_map' =
        (if map_of fresh_snow_map date = None then AList.update date [] fresh_snow_map
         else fresh_snow_map)
      in AList.map_entry date (AList.update (alt, exposition) v) fresh_snow_map')"

fun get_fresh_snow_inner ::
    "string \<Rightarrow> fresh_snow_map \<Rightarrow> SnowDepth list \<Rightarrow> error + fresh_snow_map" where
  "get_fresh_snow_inner exposition fresh_snow_map [] = Inr fresh_snow_map"
| "get_fresh_snow_inner exposition fresh_snow_map (snow_depth # rest) =
     ebind (getitem ''date'' (sd_date snow_depth)) (\<lambda>date.
     ebind (getitem ''altitude'' (sd_altitude snow_depth)) (\<lambda>a.
     ebind (getitem ''value'' (sd_value snow_depth)) (\<lambda>v.
       get_fresh_snow_inner exposition
         (fresh_snow_store date a exposition v fresh_snow_map) rest)))"

fun get_fresh_snow_outer ::
    "fresh_snow_map \<Rightarrow> FreshSnowPerExposition list \<Rightarrow> error + fresh_snow_map" where
  "get_fresh_snow_outer fresh_snow_map [] = Inr fresh_snow_map"
| "get_fresh_snow_outer fresh_snow_map (exposition_data # rest) =
     ebind (getitem ''exposition'' (fs_exposition exposition_data)) (\<lambda>exposition.
     ebind (getitem ''fresh_snow_depth'' (fs_fresh_snow_depth exposition_data)) (\<lambda>depths.
     ebind (get_fresh_snow_inner exposition fresh_snow_map depths) (\<lambda>fresh_snow_map'.
       get_fresh_snow_outer fresh_snow_map' rest)))"

definition get_fresh_snow :: "Snow \<Rightarrow> error + fresh_snow_map" where
  "get_fresh_snow self =
     ebind (getitem ''properties'' (s_properties (snow_raw_data self))) (\<lambda>p.
     ebind (getitem ''fresh_snow_per_exposition'' (sp_fresh_snow_per_exposition p))
       (get_fresh_snow_outer []))"

text \<open>The number of values at the leaves of the two-level mapping.\<close>

definition leaf_count :: "fresh_snow_map \<Rightarrow> nat" where
  "leaf_count fresh_snow_map = sum_list (map (\<lambda>entry. length (snd entry)) fresh_snow_map)"

text \<open>
  The paths to the leaves: one (date, (altitude, exposition)) per value, in the order of
  the mapping. Their number is \<open>leaf_count\<close>.
\<close>

definition leaf_keys :: "fresh_snow_map \<Rightarrow> (string \<times> int \<times> string) list" where
  "leaf_keys fresh_snow_map =
     concat (map (\<lambda>entry. map (\<lambda>leaf. (fst entry, fst leaf)) (snd entry)) fresh_snow_map)"

subsection \<open>The calls of a wrapper\<close>

text \<open>
  Every property and method of the two classes, as a call with its arguments, and the
  result of the call on a wrapper: what the property or the method returns, or the
  exception.
\<close>

datatype rain_call =
    Get_update_time | Get_geometry | Get_altitude | Get_location_name | Get_country
  | Get_french_department | Get_rain_product_available | Get_timezone | Get_confidence
  | Get_forecasts | Call_timestamp_to_locale_time int | Call_next_rain_date_locale

datatype 'dt rain_value =
    Rain_datetime 'dt | Rain_geometry Geometry | Rain_int int | Rain_str string
  | Rain_forecasts "ForecastData list" | Rain_optional_datetime "'dt option"

fun Rain_call ::
    "(int \<Rightarrow> string \<Rightarrow> error + 'dt) \<Rightarrow> rain_call \<Rightarrow> Rain \<Rightarrow> error + 'dt rain_value" where
  "Rain_call localize Get_update_time self = map_sum id Rain_datetime (update_time localize self)"
| "Rain_call localize Get_geometry self = map_sum id Rain_geometry (geometry self)"
| "Rain_call localize Get_altitude self = map_sum id Rain_int (altitude self)"
| "Rain_call localize Get_location_name self = map_sum id Rain_str (location_name self)"
| "Rain_call localize Get_country self = map_sum id Rain_str (country self)"
| "Rain_call localize Get_french_department self = map_sum id Rain_str (french_department self)"
| "Rain_call localize Get_rain_product_available self =
     map_sum id Rain_int (rain_product_available self)"
| "Rain_call localize Get_timezone self = map_sum id Rain_str (timezone self)"
| "Rain_call localize Get_confidence self = map_sum id Rain_int (confidence self)"
| "Rain_call localize Get_forecasts self = map_sum id Rain_forecasts (forecasts self)"
| "Rain_call localize (Call_timestamp_to_locale_time timestamp) self =
     map_sum id Rain_datetime (timestamp_to_locale_time localize self timestamp)"
| "Rain_call localize Call_next_rain_date_locale self =
     map_sum id Rain_optional_datetime (next_rain_date_locale localize self)"

datatype snow_call =
    Call_get_massif_name | Call_get_max_avalanche_risk | Call_get_snow_depth_at_altitude int
  | Call_get_available_altitudes | Call_get_avalanche_risk_by_location_value string
  | Call_get_snow_depths | Call_get_snow_limits | Call_get_avalanche_risks
  | Call_get_fresh_snow

datatype snow_value =
    Snow_str string | Snow_int int | Snow_optional_int "int option" | Snow_int_list "int list"
  | Snow_depth_list "SnowDepthEntry list" | Snow_dict "(string, int) dict"
  | Snow_fresh_snow_map fresh_snow_map

fun Snow_call :: "snow_call \<Rightarrow> Snow \<Rightarrow> error + snow_value" where
  "Snow_call Call_get_massif_name self = map_sum id Snow_str (get_massif_name self)"
| "Snow_call Call_get_max_avalanche_risk self = map_sum id Snow_int (get_max_avalanche_risk self)"
| "Snow_call (Call_get_snow_depth_at_altitude alt) self =
     map_sum id Snow_optional_int (get_snow_depth_at_altitude self alt)"
| "Snow_call Call_get_available_altitudes self =
     map_sum id Snow_int_list (get_available_altitudes self)"
| "Snow_call (Call_get_avalanche_risk_by_location_value location_value) self =
     map_sum id Snow_optional_int (get_avalanche_risk_by_location_value self location_value)"
| "Snow_call Call_get_snow_depths self = map_sum id Snow_depth_list (get_snow_depths self)"
| "Snow_call Call_get_snow_limits self = map_sum id Snow_dict (get_snow_limits self)"
| "Snow_call Call_get_avalanche_risks self = map_sum id Snow_dict (get_avalanche_risks self)"
| "Snow_call Call_get_fresh_snow self = map_sum id Snow_fresh_snow_map (get_fresh_snow self)"

subsection \<open>The keys that a call reads\<close>

text \<open>
  What follows is not code of the repository: it says, for a call and a document, which
  of the keys that the call reads the document lacks. \<open>absent k field\<close> is the key \<open>k\<close>
  when it is absent, \<open>missing_in k field inside\<close> is the key \<open>k\<close> when it is absent and
  otherwise what is missing inside its value.
\<close>

definition absent :: "string \<Rightarrow> 'a option \<Rightarrow> string set" where
  "absent k field = (case field of None \<Rightarrow> {k} | Some v \<Rightarrow> {})"

definition missing_in :: "string \<Rightarrow> 'a option \<Rightarrow> ('a \<Rightarrow> string set) \<Rightarrow> string set" where
  "missing_in k field inside = (case field of None \<Rightarrow> {k} | Some v \<Rightarrow> inside v)"

text \<open>
  A query that returns at its first match reads the entries up to that match and no
  entry after it.
\<close>

fun until_first :: "('a \<Rightarrow> bool) \<Rightarrow> 'a list \<Rightarrow> 'a list" where
  "until_first P [] = []"
| "until_first P (x # xs) = (if P x then [x] else x # until_first P xs)"

definition rainy :: "ForecastData \<Rightarrow> bool" where
  "rainy e = (case f_rain_intensity e of None \<Rightarrow> False | Some i \<Rightarrow> 1 < i)"

definition at_altitude :: "int \<Rightarrow> SnowDepth \<Rightarrow> bool" where
  "at_altitude a r = (sd_altitude r = Some a)"

definition has_altitude :: "int \<Rightarrow> TotalSnowPerExposition \<Rightarrow> bool" where
  "has_altitude a x =
     (case ts_total_snow_depth x of None \<Rightarrow> False | Some ds \<Rightarrow> list_ex (at_altitude a) ds)"

definition at_location :: "string \<Rightarrow> AvalancheRiskPerLocation \<Rightarrow> bool" where
  "at_location v r = (case arl_location r of None \<Rightarrow> False | Some l \<Rightarrow> loc_value l = Some v)"

fun rain_missing :: "rain_call \<Rightarrow> RainData \<Rightarrow> string set" where
  "rain_missing Get_update_time d =
     missing_in ''update_time'' (rd_update_time d) (\<lambda>t.
       missing_in ''properties'' (rd_properties d) (\<lambda>p. absent ''timezone'' (rp_timezone p)))"
| "rain_missing Get_geometry d = absent ''geometry'' (rd_geometry d)"
| "rain_missing Get_altitude d =
     missing_in ''properties'' (rd_properties d) (\<lambda>p. absent ''altitude'' (rp_altitude p))"
| "rain_missing Get_location_name d =
     missing_in ''properties'' (rd_properties d) (\<lambda>p. absent ''name'' (rp_name p))"
| "rain_missing Get_country d =
     missing_in ''properties'' (rd_properties d) (\<lambda>p. absent ''country'' (rp_country p))"
| "rain_missing Get_french_department d =
     missing_in ''properties'' (rd_properties d)
       (\<lambda>p. absent ''french_department'' (rp_french_department p))"
| "rain_missing Get_rain_product_available d =
     missing_in ''properties'' (rd_properties d)
       (\<lambda>p. absent ''rain_product_available'' (rp_rain_product_available p))"
| "rain_missing Get_timezone d =
     missing_in ''properties'' (rd_properties d) (\<lambda>p. absent ''timezone'' (rp_timezone p))"
| "rain_missing Get_confidence d =
     missing_in ''properties'' (rd_properties d) (\<lambda>p. absent ''confidence'' (rp_confidence p))"
| "rain_missing Get_forecasts d =
     missing_in ''properties'' (rd_properties d) (\<lambda>p. absent ''forecast'' (rp_forecast p))"
| "rain_missing (Call_timestamp_to_locale_time timestamp) d =
     missing_in ''properties'' (rd_properties d) (\<lambda>p. absent ''timezone'' (rp_timezone p))"
| "rain_missing Call_next_rain_date_locale d =
     missing_in ''properties'' (rd_properties d) (\<lambda>p.
       missing_in ''forecast'' (rp_forecast p) (\<lambda>fs.
         \<Union>e\<in>set (until_first rainy fs).
           absent ''time'' (f_time e) \<union> absent ''timezone'' (rp_timezone p)
             \<union> absent ''rain_intensity'' (f_rain_intensity e)))"

fun snow_missing :: "snow_call \<Rightarrow> SnowData \<Rightarrow> string set" where
  "snow_missing Call_get_massif_name d =
     missing_in ''properties'' (s_properties d) (\<lambda>p. absent ''massif_name'' (sp_massif_name p))"
| "snow_missing Call_get_max_avalanche_risk d =
     missing_in ''properties'' (s_properties d) (\<lambda>p.
       missing_in ''massif_avalanche_risk'' (sp_massif_avalanche_risk p) (\<lambda>m.
         absent ''avalanche_risk_max'' (mar_avalanche_risk_max m)))"
| "snow_missing (Call_get_snow_depth_at_altitude a) d =
     missing_in ''properties'' (s_properties d) (\<lambda>p.
       missing_in ''total_snow_per_exposition'' (sp_total_snow_per_exposition p) (\<lambda>xs.
         \<Union>x\<in>set (until_first (has_altitude a) xs).
           missing_in ''total_snow_depth'' (ts_total_snow_depth x) (\<lambda>ds.
             \<Union>r\<in>set (until_first (at_altitude a) ds).
               missing_in ''altitude'' (sd_altitude r) (\<lambda>v.
                 if v = a then absent ''value'' (sd_value r) else {}))))"
| "snow_missing Call_get_available_altitudes d =
     missing_in ''properties'' (s_properties d) (\<lambda>p.
       missing_in ''total_snow_per_exposition'' (sp_total_snow_per_exposition p) (\<lambda>xs.
         \<Union>x\<in>set xs.
           missing_in ''total_snow_depth'' (ts_total_snow_depth x) (\<lambda>ds.
             \<Union>r\<in>set ds. absent ''altitude'' (sd_altitude r))))"
| "snow_missing (Call_get_avalanche_risk_by_location_value v) d =
     missing_in ''properties'' (s_properties d) (\<lambda>p.
       missing_in ''massif_avalanche_risk'' (sp_massif_avalanche_risk p) (\<lambda>m.
         missing_in ''avalanche_risk_per_location'' (mar_avalanche_risk_per_location m) (\<lambda>rs.
           \<Union>r\<in>set (until_first (at_location v) rs).
             missing_in ''location'' (arl_location r) (\<lambda>l.
               missing_in ''value'' (loc_value l) (\<lambda>x.
                 if x = v then absent ''avalanche_risk'' (arl_avalanche_risk r) else {})))))"
| "snow_missing Call_get_snow_depths d =
     missing_in ''properties'' (s_properties d) (\<lambda>p.
       missing_in ''total_snow_per_exposition'' (sp_total_snow_per_exposition p) (\<lambda>xs.
         \<Union>x\<in>set xs.
           absent ''exposition'' (ts_exposition x)
             \<union> missing_in ''total_snow_depth'' (ts_total_snow_depth x) (\<lambda>ds.
                 \<Union>r\<in>set ds. absent ''altitude'' (sd_altitude r) \<union> absent ''value'' (sd_value r))))"
| "snow_missing Call_get_snow_limits d =
     missing_in ''properties'' (s_properties d) (\<lambda>p.
       missing_in ''total_snow_per_exposition'' (sp_total_snow_per_exposition p) (\<lambda>xs.
         \<Union>x\<in>set xs.
           absent ''exposition'' (ts_exposition x) \<union> absent ''snow_limit'' (ts_snow_limit x)))"
| "snow_missing Call_get_avalanche_risks d =
     missing_in ''properties'' (s_properties d) (\<lambda>p.
       missing_in ''massif_avalanche_risk'' (sp_massif_avalanche_risk p) (\<lambda>m.
         missing_in ''avalanche_risk_per_location'' (mar_avalanche_risk_per_location m) (\<lambda>rs.
           \<Union>r\<in>set rs.
             missing_in ''location'' (arl_location r) (\<lambda>l. absent ''value'' (loc_value l))
               \<union> absent ''avalanche_risk'' (arl_avalanche_risk r))))"
| "snow_missing Call_get_fresh_snow d =
     missing_in ''properties'' (s_properties d) (\<lambda>p.
       missing_in ''fresh_snow_per_exposition'' (sp_fresh_snow_per_exposition p) (\<lambda>xs.
         \<Union>x\<in>set xs.
           absent ''exposition'' (fs_exposition x)
             \<union> missing_in ''fresh_snow_depth'' (fs_fresh_snow_depth x) (\<lambda>ds.
                 \<Union>r\<in>set ds. absent ''date'' (sd_date r) \<union> absent ''altitude'' (sd_altitude r)
                   \<union> absent ''value'' (sd_value r))))"

text \<open>
  The outcome of a call as the keys decide it: the call returns when no key that it reads
  is missing, and fails with the \<^verbatim>\<open>KeyError\<close> of one of the missing keys otherwise.
\<close>

definition key_outcome :: "error + 'a \<Rightarrow> string set \<Rightarrow> bool" where
  "key_outcome result missing =
     (if missing = {} then (\<exists>v. result = Inr v) else (\<exists>k\<in>missing. result = Inl (KeyError k)))"

subsection \<open>Documents and a zone table for the examples\<close>

text \<open>
  The zone table of the examples knows one zone, \<^verbatim>\<open>Europe/Paris\<close>, one hour ahead of UTC
  (its offset at the instants of the examples, in December 2023).
\<close>

definition zones_example :: "string \<Rightarrow> (int \<Rightarrow> int) option" where
  "zones_example name = (if name = ''Europe/Paris'' then Some (\<lambda>t. 3600) else None)"

text \<open>
  The two documents of \<^verbatim>\<open>tests/test_rain.py\<close> (\<^verbatim>\<open>test_rain_expected\<close>,
  \<^verbatim>\<open>test_no_rain_expected\<close>); the accents of the descriptions are left out.
\<close>

definition dry :: "int \<Rightarrow> ForecastData" where
  "dry t = \<lparr>f_time = Some t, f_rain_intensity = Some 1,
            f_rain_intensity_description = Some ''Temps sec''\<rparr>"

definition rain_expected_properties :: RainPropertiesData where
  "rain_expected_properties =
     \<lparr>rp_altitude = Some 76, rp_name = Some ''Meudon'', rp_country = Some ''FR - France'',
      rp_french_department = Some ''92'', rp_rain_product_available = Some 1,
      rp_timezone = Some ''Europe/Paris'', rp_confidence = Some 0,
      rp_forecast = Some
        [dry 1702568100, dry 1702568400, dry 1702568700, dry 1702569000,
         \<lparr>f_time = Some 1702569300, f_rain_intensity = Some 2,
          f_rain_intensity_description = Some ''Pluie faible''\<rparr>,
         \<lparr>f_time = Some 1702569600, f_rain_intensity = Some 3,
          f_rain_intensity_description = Some ''Pluie moderee''\<rparr>,
         \<lparr>f_time = Some 1702570200, f_rain_intensity = Some 2,
          f_rain_intensity_description = Some ''Pluie faible''\<rparr>,
         dry 1702570800, dry 1702571400]\<rparr>"

definition rain_document :: "RainPropertiesData \<Rightarrow> RainData" where
  "rain_document properties =
     \<lparr>rd_update_time = Some 1702567200, rd_type = Some ''Feature'',
      rd_geometry = Some \<lparr>g_type = Some ''Point'', g_coordinates = Some [2.239895, 48.807166]\<rparr>,
      rd_properties = Some properties\<rparr>"

definition rain_expected :: RainData where
  "rain_expected = rain_document rain_expected_properties"

definition no_rain_expected_properties :: RainPropertiesData where
  "no_rain_expected_properties =
     rain_expected_properties
       \<lparr>rp_forecast := Some
          [dry 1702568100, dry 1702568400, dry 1702568700, dry 1702569000, dry 1702569300,
           dry 1702569600, dry 1702570200, dry 1702570800, dry 1702571400]\<rparr>"

definition no_rain_expected :: RainData where
  "no_rain_expected = rain_document no_rain_expected_properties"

text \<open>The dry document again, in a zone that the table does not know.\<close>

definition no_rain_unknown_zone :: RainData where
  "no_rain_unknown_zone =
     rain_document (no_rain_expected_properties\<lparr>rp_timezone := Some ''Mars/Olympus''\<rparr>)"

text \<open>
  A helper for the examples that fails at the instants after the year 9999, as the
  \<^verbatim>\<open>datetime\<close> of Python does, and is the helper of the specification at the others;
  and a dry document whose second entry has such an instant.
\<close>

definition localize_until_9999 ::
    "(string \<Rightarrow> (int \<Rightarrow> int) option) \<Rightarrow> int \<Rightarrow> string \<Rightarrow> error + datetime" where
  "localize_until_9999 zones timestamp local_tz =
     (if 253402300799 < timestamp then Inl (ValueError ''year is out of range'')
      else timestamp_to_dateime_with_locale_tz zones timestamp local_tz)"

definition no_rain_late_instant :: RainData where
  "no_rain_late_instant =
     rain_document (no_rain_expected_properties
       \<lparr>rp_forecast := Some [dry 1702568100, dry 253402300800, dry 1702568700]\<rparr>)"

text \<open>A document with no key at all.\<close>

definition rain_no_keys :: RainData where
  "rain_no_keys =
     \<lparr>rd_update_time = None, rd_type = None, rd_geometry = None, rd_properties = None\<rparr>"

definition snow_no_keys :: SnowData where
  "snow_no_keys = \<lparr>s_type = None, s_update_time = None, s_properties = None\<rparr>"

text \<open>
  A snow document: two expositions whose altitudes are neither ordered nor unique, three
  locations of which two bear the same value, and fresh snow records of which two of the
  exposition \<^verbatim>\<open>N\<close> share their date and altitude.
\<close>

definition depth :: "int \<Rightarrow> string \<Rightarrow> int \<Rightarrow> SnowDepth" where
  "depth a d v = \<lparr>sd_altitude = Some a, sd_date = Some d, sd_value = Some v\<rparr>"

definition risk_at :: "string \<Rightarrow> int \<Rightarrow> AvalancheRiskPerLocation" where
  "risk_at v r =
     \<lparr>arl_avalanche_risk = Some r, arl_risk_evolution = Some None,
      arl_location = Some \<lparr>loc_location_type = Some ''alti'', loc_value = Some v\<rparr>\<rparr>"

definition snow_example_properties :: SnowPropertiesData where
  "snow_example_properties =
     \<lparr>sp_massif_name = Some ''Aravis'', sp_massif_altitude_min = Some 1000,
      sp_massif_altitude_max = Some 2700,
      sp_massif_avalanche_risk = Some
        \<lparr>mar_description = Some ''Risque marque'', mar_avalanche_risk_max = Some 3,
         mar_time = Some ''2024-01-05T15:00:00Z'', mar_dangerous_exposition = Some [''N'', ''NE''],
         mar_avalanche_risk_per_location = Some
           [risk_at ''< 2200'' 2, risk_at ''> 2200'' 3, risk_at ''< 2200'' 1]\<rparr>,
      sp_fresh_snow_per_exposition = Some
        [\<lparr>fs_time = Some ''2024-01-05T15:00:00Z'', fs_exposition = Some ''N'',
          fs_fresh_snow_depth = Some
            [depth 1500 ''2024-01-05'' 10, depth 1500 ''2024-01-05'' 20,
             depth 2000 ''2024-01-06'' 5]\<rparr>,
         \<lparr>fs_time = Some ''2024-01-05T15:00:00Z'', fs_exposition = Some ''S'',
          fs_fresh_snow_depth = Some [depth 1500 ''2024-01-05'' 7]\<rparr>],
      sp_avalanche_report = Some ''https://meteofrance.com'',
      sp_total_snow_per_exposition = Some
        [\<lparr>ts_time = Some ''2024-01-05T15:00:00Z'', ts_exposition = Some ''N'',
          ts_snow_limit = Some 1200,
          ts_total_snow_depth = Some
            [depth 2000 ''2024-01-05'' 80, depth 1500 ''2024-01-05'' 40,
             depth 2000 ''2024-01-05'' 85]\<rparr>,
         \<lparr>ts_time = Some ''2024-01-05T15:00:00Z'', ts_exposition = Some ''S'',
          ts_snow_limit = Some 1600,
          ts_total_snow_depth = Some
            [depth 2500 ''2024-01-05'' 120, depth 1500 ''2024-01-05'' 30]\<rparr>]\<rparr>"

definition snow_example :: SnowData where
  "snow_example =
     \<lparr>s_type = Some ''Feature'', s_update_time = Some ''2024-01-05T15:00:00Z'',
      s_properties = Some snow_example_properties\<rparr>"

text \<open>
  A document whose only exposition has an intact record at the altitude 1500 followed by
  a record that lacks the key \<^verbatim>\<open>altitude\<close>.
\<close>

definition snow_record_without_altitude :: SnowData where
  "snow_record_without_altitude =
     \<lparr>s_type = Some ''Feature'', s_update_time = Some ''2024-01-05T15:00:00Z'',
      s_properties = Some (snow_example_properties
        \<lparr>sp_total_snow_per_exposition := Some
           [\<lparr>ts_time = Some ''2024-01-05T15:00:00Z'', ts_exposition = Some ''N'',
             ts_snow_limit = Some 1200,
             ts_total_snow_depth = Some
               [depth 1500 ''2024-01-05'' 40,
                \<lparr>sd_altitude = None, sd_date = Some ''2024-01-05'', sd_value = Some 85\<rparr>]\<rparr>]\<rparr>)\<rparr>"

text \<open>
  The example again, with fresh snow records of which no two share date, altitude and
  exposition.
\<close>

definition snow_fresh_distinct :: SnowData where
  "snow_fresh_distinct =
     \<lparr>s_type = Some ''Feature'', s_update_time = Some ''2024-01-05T15:00:00Z'',
      s_properties = Some (snow_example_properties
        \<lparr>sp_fresh_snow_per_exposition := Some
           [\<lparr>fs_time = Some ''2024-01-05T15:00:00Z'', fs_exposition = Some ''N'',
             fs_fresh_snow_depth = Some
               [depth 1500 ''2024-01-05'' 10, depth 2000 ''2024-01-05'' 20,
                depth 1500 ''2024-01-06'' 5]\<rparr>,
            \<lparr>fs_time = Some ''2024-01-05T15:00:00Z'', fs_exposition = Some ''S'',
             fs_fresh_snow_depth = Some [depth 1500 ''2024-01-05'' 7]\<rparr>]\<rparr>)\<rparr>"

text \<open>
  The fresh snow depth records of a document, in document order: what
  \<^verbatim>\<open>get_fresh_snow\<close> has to index. This is the count of the specification, not code of
  the repository.
\<close>

definition fresh_snow_records :: "SnowData \<Rightarrow> SnowDepth list" where
  "fresh_snow_records d =
     (case s_properties d of
        None \<Rightarrow> []
      | Some p \<Rightarrow>
          (case sp_fresh_snow_per_exposition p of
             None \<Rightarrow> []
           | Some expositions \<Rightarrow>
               concat (map (\<lambda>x. case fs_fresh_snow_depth x of None \<Rightarrow> [] | Some ds \<Rightarrow> ds)
                 expositions)))"

section \<open>Exceptions and keys\<close>

lemma ebind_Inl: "ebind (Inl e) f = Inl e"
  by (simp add: ebind_def)

lemma ebind_Inr: "ebind (Inr v) f = f v"
  by (simp add: ebind_def)

lemma getitem_Some: "getitem k (Some v) = Inr v"
  by (simp add: getitem_def)

lemma getitem_None: "getitem k None = Inl (KeyError k)"
  by (simp add: getitem_def)

section \<open>Properties of the rain wrapper\<close>

lemma timezone_Rain_init:
  "rd_properties d = Some p \<Longrightarrow> rp_timezone p = Some tz \<Longrightarrow> timezone (Rain_init d) = Inr tz"
  by (simp add: timezone_def Rain_init_def getitem_def ebind_def)

lemma forecasts_Rain_init:
  "rd_properties d = Some p \<Longrightarrow> rp_forecast p = Some fs \<Longrightarrow> forecasts (Rain_init d) = Inr fs"
  by (simp add: forecasts_def Rain_init_def getitem_def ebind_def)

text \<open>
  The loop on entries that all have their two keys and whose times all localize: \<open>tm e\<close>,
  \<open>ri e\<close> and \<open>lt e\<close> are the time, the rain intensity and the localized time of the
  entry \<open>e\<close>.
\<close>

lemma next_rain_date_locale_loop_find:
  assumes "timezone self = Inr tz"
    and "\<forall>e\<in>set fs. f_time e = Some (tm e) \<and> f_rain_intensity e = Some (ri e)
           \<and> localize (tm e) tz = Inr (lt e)"
  shows "next_rain_date_locale_loop localize self fs
           = Inr (map_option lt (find (\<lambda>e. 1 < ri e) fs))"
  using assms
  by (induction fs) (simp_all add: timestamp_to_locale_time_def getitem_def ebind_def)

text \<open>
  C1. On a rain document that has the keys \<^verbatim>\<open>properties\<close>, \<^verbatim>\<open>forecast\<close> and
  \<^verbatim>\<open>timezone\<close>, whose forecast entries have the keys \<^verbatim>\<open>time\<close> and \<^verbatim>\<open>rain_intensity\<close>
  and whose entry times localize in the document's zone, \<^verbatim>\<open>next_rain_date_locale\<close>
  returns the localized time of the first entry, in the order of the sequence, whose rain
  intensity is greater than 1, and \<^verbatim>\<open>None\<close> when there is no such entry (the empty
  sequence included).
\<close>

theorem next_rain_date_locale_first_rain:
  assumes "rd_properties d = Some p" and "rp_forecast p = Some fs" and "rp_timezone p = Some tz"
    and "\<forall>e\<in>set fs. f_time e = Some (tm e) \<and> f_rain_intensity e = Some (ri e)
           \<and> localize (tm e) tz = Inr (lt e)"
  shows "next_rain_date_locale localize (Rain_init d)
           = Inr (map_option lt (find (\<lambda>e. 1 < ri e) fs))"
proof -
  have "forecasts (Rain_init d) = Inr fs"
    using assms(1,2) by (rule forecasts_Rain_init)
  moreover have "timezone (Rain_init d) = Inr tz"
    using assms(1,3) by (rule timezone_Rain_init)
  ultimately show ?thesis
    using next_rain_date_locale_loop_find [of "Rain_init d" tz fs tm ri localize lt, OF _ assms(4)]
    by (simp add: next_rain_date_locale_def ebind_Inr)
qed

text \<open>
  The two documents of the tests: rain at the fifth entry (16:55 local time, one hour
  ahead of UTC), and no rain at all.
\<close>

theorem next_rain_date_locale_first_rain_witness:
  "next_rain_date_locale (timestamp_to_dateime_with_locale_tz zones_example)
       (Rain_init rain_expected)
     = Inr (Some \<lparr>dt_timestamp = 1702569300, dt_utcoffset = 3600, dt_tzname = ''Europe/Paris''\<rparr>)
   \<and> next_rain_date_locale (timestamp_to_dateime_with_locale_tz zones_example)
       (Rain_init no_rain_expected) = Inr None"
proof -
  let ?lt = "\<lambda>e. \<lparr>dt_timestamp = the (f_time e), dt_utcoffset = 3600, dt_tzname = ''Europe/Paris''\<rparr>"
  let ?L = "timestamp_to_dateime_with_locale_tz zones_example"
  have a: "next_rain_date_locale ?L (Rain_init rain_expected)
      = Inr (map_option ?lt (find (\<lambda>e. 1 < the (f_rain_intensity e))
               (the (rp_forecast rain_expected_properties))))"
    by (rule next_rain_date_locale_first_rain
          [where p = rain_expected_properties and tz = "''Europe/Paris''"
             and tm = "\<lambda>e. the (f_time e)"])
       (simp_all add: rain_expected_def rain_document_def rain_expected_properties_def dry_def
          timestamp_to_dateime_with_locale_tz_def zones_example_def)
  have b: "next_rain_date_locale ?L (Rain_init no_rain_expected)
      = Inr (map_option ?lt (find (\<lambda>e. 1 < the (f_rain_intensity e))
               (the (rp_forecast no_rain_expected_properties))))"
    by (rule next_rain_date_locale_first_rain
          [where p = no_rain_expected_properties and tz = "''Europe/Paris''"
             and tm = "\<lambda>e. the (f_time e)"])
       (simp_all add: no_rain_expected_def rain_document_def no_rain_expected_properties_def
          rain_expected_properties_def dry_def
          timestamp_to_dateime_with_locale_tz_def zones_example_def)
  show ?thesis
    unfolding a b
    by (simp add: rain_expected_properties_def no_rain_expected_properties_def dry_def)
qed

text \<open>
  The loop on a sequence \<open>pre @ e # es\<close> whose entries \<open>pre\<close> are scanned without a
  failure and are dry: the entry \<open>e\<close> is reached.
\<close>

lemma next_rain_date_locale_loop_dry_prefix:
  assumes "timezone self = Inr tz"
    and "\<forall>x\<in>set pre. f_time x = Some (tm x) \<and> f_rain_intensity x = Some (ri x)
           \<and> localize (tm x) tz = Inr (lt x) \<and> ri x \<le> 1"
  shows "next_rain_date_locale_loop localize self (pre @ rest)
           = next_rain_date_locale_loop localize self rest"
  using assms
  by (induction pre) (simp_all add: timestamp_to_locale_time_def getitem_def ebind_def)

text \<open>
  C10. On a rain document whose forecast sequence is not empty, \<^verbatim>\<open>next_rain_date_locale\<close>
  localizes the time of each entry it scans before it reads that entry's rain intensity:
  when the scan reaches an entry \<open>e\<close> (the entries \<open>pre\<close> before it are dry and their
  times localize) and the localization of the time of \<open>e\<close> fails, the call fails with that
  error, whatever the rain intensity of \<open>e\<close> is and whether or not \<open>e\<close> has the key. With
  the helper of the specification: when the document's zone name is not a recognized one,
  the call fails with \<^verbatim>\<open>InvalidTimezone\<close>, also when every entry is dry.
\<close>

theorem next_rain_date_locale_localizes_each_scanned:
  assumes "rd_properties d = Some p" and "rp_forecast p = Some (pre @ e # es)"
    and "rp_timezone p = Some tz"
    and "\<forall>x\<in>set pre. f_time x = Some (tm x) \<and> f_rain_intensity x = Some (ri x)
           \<and> localize (tm x) tz = Inr (lt x) \<and> ri x \<le> 1"
    and "f_time e = Some t"
  shows "(localize t tz = Inl err \<longrightarrow> next_rain_date_locale localize (Rain_init d) = Inl err)
       \<and> (zones tz = None \<longrightarrow>
            next_rain_date_locale (timestamp_to_dateime_with_locale_tz zones) (Rain_init d)
              = Inl (InvalidTimezone tz))"
proof -
  have f: "forecasts (Rain_init d) = Inr (pre @ e # es)"
    using assms(1,2) by (rule forecasts_Rain_init)
  have z: "timezone (Rain_init d) = Inr tz"
    using assms(1,3) by (rule timezone_Rain_init)
  have "next_rain_date_locale localize (Rain_init d) = Inl err" if "localize t tz = Inl err"
  proof -
    have "next_rain_date_locale localize (Rain_init d)
        = next_rain_date_locale_loop localize (Rain_init d) (e # es)"
      using next_rain_date_locale_loop_dry_prefix
              [of "Rain_init d" tz pre tm ri localize lt "e # es", OF z assms(4)] f
      by (simp add: next_rain_date_locale_def ebind_Inr)
    also have "\<dots> = Inl err"
      using that assms(5) z
      by (simp add: timestamp_to_locale_time_def getitem_def ebind_def)
    finally show ?thesis .
  qed
  moreover have "next_rain_date_locale (timestamp_to_dateime_with_locale_tz zones) (Rain_init d)
      = Inl (InvalidTimezone tz)" if "zones tz = None"
  proof -
    obtain x xs t' where first: "pre @ e # es = x # xs" "f_time x = Some t'"
      using assms(4,5) by (cases pre) auto
    show ?thesis
      using that first f z
      by (simp add: next_rain_date_locale_def timestamp_to_locale_time_def getitem_def ebind_def
            timestamp_to_dateime_with_locale_tz_def)
  qed
  ultimately show ?thesis
    by blast
qed

text \<open>
  A dry document whose second entry has an instant at which the helper fails, and the dry
  document of the tests in a zone that the table does not know.
\<close>

theorem next_rain_date_locale_localizes_each_scanned_witness:
  "next_rain_date_locale (localize_until_9999 zones_example) (Rain_init no_rain_late_instant)
     = Inl (ValueError ''year is out of range'')
   \<and> next_rain_date_locale (timestamp_to_dateime_with_locale_tz zones_example)
       (Rain_init no_rain_unknown_zone) = Inl (InvalidTimezone ''Mars/Olympus'')"
proof -
  let ?lt = "\<lambda>x. \<lparr>dt_timestamp = the (f_time x), dt_utcoffset = 3600, dt_tzname = ''Europe/Paris''\<rparr>"
  have late: "localize_until_9999 zones_example 253402300800 ''Europe/Paris''
      = Inl (ValueError ''year is out of range'')"
    by (simp add: localize_until_9999_def)
  have 1: "next_rain_date_locale (localize_until_9999 zones_example)
      (Rain_init no_rain_late_instant) = Inl (ValueError ''year is out of range'')"
    using next_rain_date_locale_localizes_each_scanned
           [where d = no_rain_late_instant and tz = "''Europe/Paris''"
              and pre = "[dry 1702568100]" and e = "dry 253402300800"
              and es = "[dry 1702568700]" and t = 253402300800
              and tm = "\<lambda>x. the (f_time x)" and ri = "\<lambda>x. the (f_rain_intensity x)"
              and lt = ?lt and localize = "localize_until_9999 zones_example"
              and err = "ValueError ''year is out of range''"
              and p = "no_rain_expected_properties
                \<lparr>rp_forecast := Some [dry 1702568100, dry 253402300800, dry 1702568700]\<rparr>"]
      late
    by (simp add: no_rain_late_instant_def rain_document_def no_rain_expected_properties_def
          rain_expected_properties_def dry_def localize_until_9999_def
          timestamp_to_dateime_with_locale_tz_def zones_example_def)
  have "zones_example ''Mars/Olympus'' = None"
    by (simp add: zones_example_def)
  with next_rain_date_locale_localizes_each_scanned
         [where d = no_rain_unknown_zone and tz = "''Mars/Olympus''" and zones = zones_example
            and t = 1702568100 and e = "dry 1702568100" and pre = "[]"
            and p = "no_rain_expected_properties\<lparr>rp_timezone := Some ''Mars/Olympus''\<rparr>"
            and localize = "timestamp_to_dateime_with_locale_tz zones_example"
            and err = "InvalidTimezone ''Mars/Olympus''"]
  have 2: "next_rain_date_locale (timestamp_to_dateime_with_locale_tz zones_example)
      (Rain_init no_rain_unknown_zone) = Inl (InvalidTimezone ''Mars/Olympus'')"
    by (simp add: no_rain_unknown_zone_def rain_document_def no_rain_expected_properties_def
          rain_expected_properties_def dry_def)
  from 1 2 show ?thesis
    by simp
qed

section \<open>Properties of the snow wrapper\<close>

subsection \<open>The first match in a sequence of sequences\<close>

lemma find_append_case:
  "find P (xs @ ys) = (case find P xs of None \<Rightarrow> find P ys | Some x \<Rightarrow> Some x)"
  by (induction xs) simp_all

lemma find_concat_map:
  "find P (concat (map f xs))
     = (case find (\<lambda>x. \<exists>r\<in>set (f x). P r) xs of None \<Rightarrow> None | Some x \<Rightarrow> find P (f x))"
proof (induction xs)
  case Nil
  show ?case by simp
next
  case (Cons x xs)
  show ?case
  proof (cases "\<exists>r\<in>set (f x). P r")
    case True
    then obtain r where "find P (f x) = Some r"
      by (cases "find P (f x)") (auto simp: find_None_iff)
    with True show ?thesis
      by (simp add: find_append_case)
  next
    case False
    then have "find P (f x) = None"
      by (simp add: find_None_iff)
    with False Cons show ?thesis
      by (simp add: find_append_case)
  qed
qed

subsection \<open>Snow depth at an altitude, available altitudes\<close>

text \<open>
  In what follows \<open>xs\<close> is the sequence under \<^verbatim>\<open>total_snow_per_exposition\<close>,
  \<open>depths x\<close> the sequence under \<^verbatim>\<open>total_snow_depth\<close> of the exposition \<open>x\<close>, and
  \<open>altf r\<close> and \<open>valf r\<close> the altitude and the value of the depth record \<open>r\<close>: the
  hypotheses say that the document has these keys.
\<close>

lemma total_snow_Snow_init:
  "s_properties d = Some p \<Longrightarrow> sp_total_snow_per_exposition p = Some xs \<Longrightarrow>
   ebind (getitem ''properties'' (s_properties (snow_raw_data (Snow_init d)))) (\<lambda>p.
     ebind (getitem ''total_snow_per_exposition'' (sp_total_snow_per_exposition p)) f) = f xs"
  by (simp add: Snow_init_def getitem_def ebind_def)

lemma get_snow_depth_at_altitude_inner_find:
  assumes "\<forall>r\<in>set ds. sd_altitude r = Some (altf r) \<and> sd_value r = Some (valf r)"
  shows "get_snow_depth_at_altitude_inner a ds
           = Inr (map_option valf (find (\<lambda>r. altf r = a) ds))"
  using assms by (induction ds) (simp_all add: getitem_def ebind_def)

lemma get_snow_depth_at_altitude_outer_find:
  assumes "\<forall>x\<in>set xs. ts_total_snow_depth x = Some (depths x)"
    and "\<forall>x\<in>set xs. \<forall>r\<in>set (depths x). sd_altitude r = Some (altf r) \<and> sd_value r = Some (valf r)"
  shows "get_snow_depth_at_altitude_outer a xs
           = Inr (map_option valf (find (\<lambda>r. altf r = a) (concat (map depths xs))))"
  using assms
proof (induction xs)
  case Nil
  show ?case by simp
next
  case (Cons x xs)
  have inner: "get_snow_depth_at_altitude_inner a (depths x)
      = Inr (map_option valf (find (\<lambda>r. altf r = a) (depths x)))"
    using Cons.prems(2) by (intro get_snow_depth_at_altitude_inner_find) simp
  have rest: "get_snow_depth_at_altitude_outer a xs
      = Inr (map_option valf (find (\<lambda>r. altf r = a) (concat (map depths xs))))"
    using Cons by simp
  have key: "ts_total_snow_depth x = Some (depths x)"
    using Cons.prems(1) by simp
  show ?case
    by (cases "find (\<lambda>r. altf r = a) (depths x)")
       (simp_all add: key inner rest getitem_def ebind_def find_append_case)
qed

lemma get_snow_depth_at_altitude_flat:
  assumes "s_properties d = Some p" and "sp_total_snow_per_exposition p = Some xs"
    and "\<forall>x\<in>set xs. ts_total_snow_depth x = Some (depths x)"
    and "\<forall>x\<in>set xs. \<forall>r\<in>set (depths x). sd_altitude r = Some (altf r) \<and> sd_value r = Some (valf r)"
  shows "get_snow_depth_at_altitude (Snow_init d) a
           = Inr (map_option valf (find (\<lambda>r. altf r = a) (concat (map depths xs))))"
  unfolding get_snow_depth_at_altitude_def total_snow_Snow_init [OF assms(1,2)]
  using assms(3,4) by (rule get_snow_depth_at_altitude_outer_find)

text \<open>
  C3. On a snow document that has the keys of its total snow records,
  \<^verbatim>\<open>get_snow_depth_at_altitude\<close> returns the value of the first depth record whose
  altitude equals the queried one, taken from the first exposition, in document order,
  that has such a record; it returns \<^verbatim>\<open>None\<close> when no exposition has one.
\<close>

theorem get_snow_depth_at_altitude_first_match:
  assumes "s_properties d = Some p" and "sp_total_snow_per_exposition p = Some xs"
    and "\<forall>x\<in>set xs. ts_total_snow_depth x = Some (depths x)"
    and "\<forall>x\<in>set xs. \<forall>r\<in>set (depths x). sd_altitude r = Some (altf r) \<and> sd_value r = Some (valf r)"
  shows "get_snow_depth_at_altitude (Snow_init d) a
           = Inr (case find (\<lambda>x. \<exists>r\<in>set (depths x). altf r = a) xs of
                    None \<Rightarrow> None
                  | Some x \<Rightarrow> map_option valf (find (\<lambda>r. altf r = a) (depths x)))"
  unfolding get_snow_depth_at_altitude_flat [OF assms] find_concat_map
  by (simp split: option.split)

lemma get_available_altitudes_inner_set:
  assumes "\<forall>r\<in>set ds. sd_altitude r = Some (altf r)"
  shows "get_available_altitudes_inner S ds = Inr (S \<union> altf ` set ds)"
  using assms by (induction ds arbitrary: S) (simp_all add: getitem_def ebind_def)

lemma get_available_altitudes_outer_set:
  assumes "\<forall>x\<in>set xs. ts_total_snow_depth x = Some (depths x)"
    and "\<forall>x\<in>set xs. \<forall>r\<in>set (depths x). sd_altitude r = Some (altf r)"
  shows "get_available_altitudes_outer S xs = Inr (S \<union> altf ` (\<Union>x\<in>set xs. set (depths x)))"
  using assms
proof (induction xs arbitrary: S)
  case Nil
  show ?case by simp
next
  case (Cons x xs)
  have inner: "get_available_altitudes_inner S (depths x) = Inr (S \<union> altf ` set (depths x))"
    using Cons.prems(2) by (intro get_available_altitudes_inner_set) simp
  have rest: "get_available_altitudes_outer (S \<union> altf ` set (depths x)) xs
      = Inr ((S \<union> altf ` set (depths x)) \<union> altf ` (\<Union>x\<in>set xs. set (depths x)))"
    using Cons by simp
  have key: "ts_total_snow_depth x = Some (depths x)"
    using Cons.prems(1) by simp
  show ?case
    by (simp add: key inner rest getitem_def ebind_def image_Un Un_assoc)
qed

lemma get_available_altitudes_sorted_list:
  assumes "s_properties d = Some p" and "sp_total_snow_per_exposition p = Some xs"
    and "\<forall>x\<in>set xs. ts_total_snow_depth x = Some (depths x)"
    and "\<forall>x\<in>set xs. \<forall>r\<in>set (depths x). sd_altitude r = Some (altf r)"
  shows "get_available_altitudes (Snow_init d)
           = Inr (sorted_list_of_set (altf ` (\<Union>x\<in>set xs. set (depths x))))"
  unfolding get_available_altitudes_def total_snow_Snow_init [OF assms(1,2)]
  by (simp add: get_available_altitudes_outer_set [OF assms(3,4)] ebind_def)

text \<open>
  C4. On a snow document that has the keys of its total snow records, whether or not
  the altitudes are repeated or out of order, \<^verbatim>\<open>get_available_altitudes\<close> returns a
  list whose members are exactly the altitudes of the records of all expositions, in
  strictly ascending order and without a repeated value.
\<close>

theorem get_available_altitudes_ascending:
  assumes "s_properties d = Some p" and "sp_total_snow_per_exposition p = Some xs"
    and "\<forall>x\<in>set xs. ts_total_snow_depth x = Some (depths x)"
    and "\<forall>x\<in>set xs. \<forall>r\<in>set (depths x). sd_altitude r = Some (altf r)"
  shows "\<exists>alts. get_available_altitudes (Snow_init d) = Inr alts
           \<and> set alts = altf ` (\<Union>x\<in>set xs. set (depths x))
           \<and> sorted_wrt (<) alts \<and> distinct alts"
  unfolding get_available_altitudes_sorted_list [OF assms]
  by simp

text \<open>
  C9. On a snow document that has the keys of its total snow records, both queries
  return, and \<^verbatim>\<open>get_snow_depth_at_altitude\<close> returns a value (not \<^verbatim>\<open>None\<close>) for an
  altitude if and only if the altitude is a member of the list that
  \<^verbatim>\<open>get_available_altitudes\<close> returns.
\<close>

theorem depth_present_iff_altitude_available:
  assumes "s_properties d = Some p" and "sp_total_snow_per_exposition p = Some xs"
    and "\<forall>x\<in>set xs. ts_total_snow_depth x = Some (depths x)"
    and "\<forall>x\<in>set xs. \<forall>r\<in>set (depths x). sd_altitude r = Some (altf r) \<and> sd_value r = Some (valf r)"
  shows "\<exists>alts found. get_available_altitudes (Snow_init d) = Inr alts
           \<and> get_snow_depth_at_altitude (Snow_init d) a = Inr found
           \<and> ((\<exists>v. found = Some v) \<longleftrightarrow> a \<in> set alts)"
proof -
  have alts: "get_available_altitudes (Snow_init d)
      = Inr (sorted_list_of_set (altf ` (\<Union>x\<in>set xs. set (depths x))))"
    using assms by (intro get_available_altitudes_sorted_list) auto
  let ?found = "find (\<lambda>r. altf r = a) (concat (map depths xs))"
  have "(\<exists>v. map_option valf ?found = Some v) \<longleftrightarrow> ?found \<noteq> None"
    by (cases ?found) simp_all
  also have "\<dots> \<longleftrightarrow> (\<exists>r\<in>set (concat (map depths xs)). altf r = a)"
    unfolding find_None_iff by blast
  also have "\<dots> \<longleftrightarrow> a \<in> altf ` (\<Union>x\<in>set xs. set (depths x))"
    by auto
  finally show ?thesis
    unfolding alts get_snow_depth_at_altitude_flat [OF assms]
    by simp
qed

text \<open>The example has the keys of its total snow records.\<close>

lemma snow_example_total_snow:
  "s_properties snow_example = Some snow_example_properties"
  "sp_total_snow_per_exposition snow_example_properties = Some (the (sp_total_snow_per_exposition snow_example_properties))"
  "\<forall>x\<in>set (the (sp_total_snow_per_exposition snow_example_properties)).
     ts_total_snow_depth x = Some (the (ts_total_snow_depth x))"
  "\<forall>x\<in>set (the (sp_total_snow_per_exposition snow_example_properties)).
     \<forall>r\<in>set (the (ts_total_snow_depth x)).
       sd_altitude r = Some (the (sd_altitude r)) \<and> sd_value r = Some (the (sd_value r))"
  by (simp_all add: snow_example_def snow_example_properties_def depth_def)

lemma snow_example_total_snow_altitudes:
  "\<forall>x\<in>set (the (sp_total_snow_per_exposition snow_example_properties)).
     \<forall>r\<in>set (the (ts_total_snow_depth x)). sd_altitude r = Some (the (sd_altitude r))"
  using snow_example_total_snow(4) by blast

text \<open>
  In the example the altitude 1500 is in both expositions (40 in the first, 30 in the
  second), 2000 is twice in the first one (80, then 85), and 3000 is in none.
\<close>

theorem get_snow_depth_at_altitude_first_match_witness:
  "get_snow_depth_at_altitude (Snow_init snow_example) 1500 = Inr (Some 40)
   \<and> get_snow_depth_at_altitude (Snow_init snow_example) 2000 = Inr (Some 80)
   \<and> get_snow_depth_at_altitude (Snow_init snow_example) 3000 = Inr None"
  unfolding get_snow_depth_at_altitude_first_match [OF snow_example_total_snow]
  by (simp add: snow_example_properties_def depth_def)

text \<open>
  The altitudes of the example are 2000, 1500, 2000 in the first exposition and 2500, 1500
  in the second.
\<close>

theorem get_available_altitudes_ascending_witness:
  "get_available_altitudes (Snow_init snow_example) = Inr [1500, 2000, 2500]"
proof -
  obtain alts where alts: "get_available_altitudes (Snow_init snow_example) = Inr alts"
      "set alts = (\<lambda>r. the (sd_altitude r)) `
         (\<Union>x\<in>set (the (sp_total_snow_per_exposition snow_example_properties)).
            set (the (ts_total_snow_depth x)))"
      "sorted_wrt (<) alts"
    using get_available_altitudes_ascending
            [OF snow_example_total_snow(1,2,3) snow_example_total_snow_altitudes]
    by blast
  have "set alts = set [1500, 2000, 2500]"
    unfolding alts(2) by (auto simp: snow_example_properties_def depth_def)
  moreover have "sorted_wrt (<) [1500, 2000, 2500 :: int]"
    by simp
  ultimately have "alts = [1500, 2000, 2500]"
    using alts(3) by (metis strict_sorted_equal)
  with alts(1) show ?thesis
    by simp
qed

text \<open>
  In the example 2500 is an altitude of the second exposition, and 3000 of none.
\<close>

lemma snow_example_depth_2500:
  "get_snow_depth_at_altitude (Snow_init snow_example) 2500 = Inr (Some 120)"
  by (simp add: get_snow_depth_at_altitude_def Snow_init_def snow_example_def
        snow_example_properties_def depth_def getitem_def ebind_def)

lemma snow_example_depth_3000:
  "get_snow_depth_at_altitude (Snow_init snow_example) 3000 = Inr None"
  by (simp add: get_snow_depth_at_altitude_def Snow_init_def snow_example_def
        snow_example_properties_def depth_def getitem_def ebind_def)

theorem depth_present_iff_altitude_available_witness:
  "\<exists>alts. get_available_altitudes (Snow_init snow_example) = Inr alts
      \<and> get_snow_depth_at_altitude (Snow_init snow_example) 2500 = Inr (Some 120)
      \<and> 2500 \<in> set alts
      \<and> get_snow_depth_at_altitude (Snow_init snow_example) 3000 = Inr None
      \<and> 3000 \<notin> set alts"
proof -
  obtain alts f1 where 1: "get_available_altitudes (Snow_init snow_example) = Inr alts"
      "get_snow_depth_at_altitude (Snow_init snow_example) 2500 = Inr f1"
      "(\<exists>v. f1 = Some v) \<longleftrightarrow> 2500 \<in> set alts"
    using depth_present_iff_altitude_available [OF snow_example_total_snow, of 2500]
    by blast
  obtain alts' f2 where 2: "get_available_altitudes (Snow_init snow_example) = Inr alts'"
      "get_snow_depth_at_altitude (Snow_init snow_example) 3000 = Inr f2"
      "(\<exists>v. f2 = Some v) \<longleftrightarrow> 3000 \<in> set alts'"
    using depth_present_iff_altitude_available [OF snow_example_total_snow, of 3000]
    by blast
  from 1(1) 2(1) have same: "alts' = alts"
    by simp
  from 1(2,3) have "2500 \<in> set alts"
    by (auto simp: snow_example_depth_2500)
  moreover from 2(2,3) same have "3000 \<notin> set alts"
    by (auto simp: snow_example_depth_3000)
  ultimately show ?thesis
    using 1(1) by (simp add: snow_example_depth_2500 snow_example_depth_3000)
qed

subsection \<open>Avalanche risks by location\<close>

text \<open>
  In what follows \<open>rs\<close> is the sequence under \<^verbatim>\<open>avalanche_risk_per_location\<close>, and
  \<open>lv r\<close> and \<open>rk r\<close> are the \<^verbatim>\<open>location.value\<close> and the \<^verbatim>\<open>avalanche_risk\<close> of the
  entry \<open>r\<close>.
\<close>

lemma avalanche_risks_Snow_init:
  "s_properties d = Some p \<Longrightarrow> sp_massif_avalanche_risk p = Some m \<Longrightarrow>
   mar_avalanche_risk_per_location m = Some rs \<Longrightarrow>
   ebind (getitem ''properties'' (s_properties (snow_raw_data (Snow_init d)))) (\<lambda>p.
     ebind (getitem ''massif_avalanche_risk'' (sp_massif_avalanche_risk p)) (\<lambda>m.
       ebind (getitem ''avalanche_risk_per_location'' (mar_avalanche_risk_per_location m)) f))
     = f rs"
  by (simp add: Snow_init_def getitem_def ebind_def)

lemma get_avalanche_risk_by_location_value_loop_find:
  assumes "\<forall>r\<in>set rs. (\<exists>l. arl_location r = Some l \<and> loc_value l = Some (lv r))
             \<and> arl_avalanche_risk r = Some (rk r)"
  shows "get_avalanche_risk_by_location_value_loop v rs
           = Inr (map_option rk (find (\<lambda>r. lv r = v) rs))"
  using assms by (induction rs) (auto simp: getitem_def ebind_def)

text \<open>
  C6. On a snow document that has the keys of its avalanche risk entries,
  \<^verbatim>\<open>get_avalanche_risk_by_location_value\<close> returns the avalanche risk of the first
  entry whose \<^verbatim>\<open>location.value\<close> is equal to the queried string, and returns
  \<^verbatim>\<open>None\<close>, not an exception, when no entry matches.
\<close>

theorem get_avalanche_risk_by_location_value_first_match:
  assumes "s_properties d = Some p" and "sp_massif_avalanche_risk p = Some m"
    and "mar_avalanche_risk_per_location m = Some rs"
    and "\<forall>r\<in>set rs. (\<exists>l. arl_location r = Some l \<and> loc_value l = Some (lv r))
           \<and> arl_avalanche_risk r = Some (rk r)"
  shows "get_avalanche_risk_by_location_value (Snow_init d) v
           = Inr (map_option rk (find (\<lambda>r. lv r = v) rs))"
  unfolding get_avalanche_risk_by_location_value_def avalanche_risks_Snow_init [OF assms(1,2,3)]
  using assms(4) by (rule get_avalanche_risk_by_location_value_loop_find)

lemma snow_example_risks:
  "s_properties snow_example = Some snow_example_properties"
  "sp_massif_avalanche_risk snow_example_properties
     = Some (the (sp_massif_avalanche_risk snow_example_properties))"
  "mar_avalanche_risk_per_location (the (sp_massif_avalanche_risk snow_example_properties))
     = Some [risk_at ''< 2200'' 2, risk_at ''> 2200'' 3, risk_at ''< 2200'' 1]"
  "\<forall>r\<in>set [risk_at ''< 2200'' 2, risk_at ''> 2200'' 3, risk_at ''< 2200'' 1].
     (\<exists>l. arl_location r = Some l \<and> loc_value l = Some (the (loc_value (the (arl_location r)))))
     \<and> arl_avalanche_risk r = Some (the (arl_avalanche_risk r))"
  by (simp_all add: snow_example_def snow_example_properties_def risk_at_def)

theorem get_avalanche_risk_by_location_value_first_match_witness:
  "get_avalanche_risk_by_location_value (Snow_init snow_example) ''< 2200'' = Inr (Some 2)
   \<and> get_avalanche_risk_by_location_value (Snow_init snow_example) ''> 2200'' = Inr (Some 3)
   \<and> get_avalanche_risk_by_location_value (Snow_init snow_example) ''2200'' = Inr None"
  unfolding get_avalanche_risk_by_location_value_first_match [OF snow_example_risks]
  by (simp add: risk_at_def)

lemma get_avalanche_risks_loop_fold:
  assumes "\<forall>r\<in>set rs. (\<exists>l. arl_location r = Some l \<and> loc_value l = Some (lv r))
             \<and> arl_avalanche_risk r = Some (rk r)"
  shows "get_avalanche_risks_loop m rs = Inr (fold (\<lambda>r. AList.update (lv r) (rk r)) rs m)"
  using assms by (induction rs arbitrary: m) (auto simp: getitem_def ebind_def)

lemma map_of_fold_update:
  "map_of (fold (\<lambda>r. AList.update (lv r) (rk r)) rs m) v
     = (case find (\<lambda>r. lv r = v) (rev rs) of None \<Rightarrow> map_of m v | Some r \<Rightarrow> Some (rk r))"
proof (induction rs arbitrary: m)
  case Nil
  show ?case by simp
next
  case (Cons r rs)
  show ?case
    by (cases "find (\<lambda>r. lv r = v) (rev rs)")
       (simp_all add: Cons find_append_case update_conv')
qed

lemma keys_fold_update:
  "fst ` set (fold (\<lambda>r. AList.update (lv r) (rk r)) rs m) = fst ` set m \<union> lv ` set rs"
  by (induction rs arbitrary: m) (auto simp: dom_update)

lemma distinct_fold_update:
  "distinct (map fst m) \<Longrightarrow> distinct (map fst (fold (\<lambda>r. AList.update (lv r) (rk r)) rs m))"
  by (induction rs arbitrary: m) (simp_all add: distinct_update)

text \<open>
  C5. On a snow document that has the keys of its avalanche risk entries,
  \<^verbatim>\<open>get_avalanche_risks\<close> returns a dictionary whose keys are exactly the
  \<^verbatim>\<open>location.value\<close> strings of the sequence, each bound to the avalanche risk of the
  last entry that bears it, and whose size is the number of distinct such strings.
\<close>

theorem get_avalanche_risks_last_wins:
  assumes "s_properties d = Some p" and "sp_massif_avalanche_risk p = Some m"
    and "mar_avalanche_risk_per_location m = Some rs"
    and "\<forall>r\<in>set rs. (\<exists>l. arl_location r = Some l \<and> loc_value l = Some (lv r))
           \<and> arl_avalanche_risk r = Some (rk r)"
  shows "\<exists>risks_map. get_avalanche_risks (Snow_init d) = Inr risks_map
           \<and> distinct (map fst risks_map)
           \<and> fst ` set risks_map = lv ` set rs
           \<and> (\<forall>v. map_of risks_map v = map_option rk (find (\<lambda>r. lv r = v) (rev rs)))
           \<and> length risks_map = card (lv ` set rs)"
proof -
  let ?m = "fold (\<lambda>r. AList.update (lv r) (rk r)) rs []"
  have run: "get_avalanche_risks (Snow_init d) = Inr ?m"
    unfolding get_avalanche_risks_def avalanche_risks_Snow_init [OF assms(1,2,3)]
    using assms(4) by (rule get_avalanche_risks_loop_fold)
  have dist: "distinct (map fst ?m)"
    by (rule distinct_fold_update) simp
  have keys: "fst ` set ?m = lv ` set rs"
    by (simp add: keys_fold_update)
  have look: "map_of ?m v = map_option rk (find (\<lambda>r. lv r = v) (rev rs))" for v
    by (simp add: map_of_fold_update split: option.split)
  have "length ?m = length (map fst ?m)"
    by simp
  also have "\<dots> = card (set (map fst ?m))"
    using dist by (simp only: distinct_card)
  also have "\<dots> = card (lv ` set rs)"
    using keys by simp
  finally have "length ?m = card (lv ` set rs)" .
  with run dist keys look show ?thesis
    by blast
qed

text \<open>
  The example has three entries, the first and the third for the same location value.
\<close>

theorem get_avalanche_risks_last_wins_witness:
  "\<exists>risks_map. get_avalanche_risks (Snow_init snow_example) = Inr risks_map
      \<and> map_of risks_map ''< 2200'' = Some 1 \<and> map_of risks_map ''> 2200'' = Some 3
      \<and> map_of risks_map ''2200'' = None \<and> length risks_map = 2"
proof -
  let ?lv = "\<lambda>r. the (loc_value (the (arl_location r)))"
  let ?rk = "\<lambda>r. the (arl_avalanche_risk r)"
  let ?rs = "[risk_at ''< 2200'' 2, risk_at ''> 2200'' 3, risk_at ''< 2200'' 1]"
  obtain risks_map where m: "get_avalanche_risks (Snow_init snow_example) = Inr risks_map"
      "\<And>v. map_of risks_map v = map_option ?rk (find (\<lambda>r. ?lv r = v) (rev ?rs))"
      "length risks_map = card (?lv ` set ?rs)"
    using get_avalanche_risks_last_wins [OF snow_example_risks] by blast
  have "?lv ` set ?rs = {''< 2200'', ''> 2200''}"
    by (auto simp: risk_at_def)
  then have "length risks_map = 2"
    using m(3) by simp
  moreover have "map_of risks_map ''< 2200'' = Some 1" "map_of risks_map ''> 2200'' = Some 3"
      "map_of risks_map ''2200'' = None"
    unfolding m(2) by (simp_all add: risk_at_def)
  ultimately show ?thesis
    using m(1) by blast
qed

subsection \<open>The index of fresh snow\<close>

lemma leaf_keys_simps:
  "leaf_keys [] = []"
  "leaf_keys (entry # m) = map (\<lambda>leaf. (fst entry, fst leaf)) (snd entry) @ leaf_keys m"
  "leaf_keys (m @ m') = leaf_keys m @ leaf_keys m'"
  by (simp_all add: leaf_keys_def)

lemma length_leaf_keys: "length (leaf_keys m) = leaf_count m"
  by (induction m) (simp_all add: leaf_keys_simps leaf_count_def)

lemma leaf_keys_date: "(d, k) \<in> set (leaf_keys m) \<Longrightarrow> d \<in> fst ` set m"
  by (induction m) (auto simp: leaf_keys_simps)

lemma update_absent: "k \<notin> fst ` set al \<Longrightarrow> AList.update k v al = al @ [(k, v)]"
  by (induction al) auto

lemma set_leaf_keys_map_entry:
  "d \<in> fst ` set m \<Longrightarrow>
   set (leaf_keys (AList.map_entry d (AList.update k v) m)) = insert (d, k) (set (leaf_keys m))"
proof (induction m)
  case Nil
  then show ?case by simp
next
  case (Cons entry m)
  show ?case
  proof (cases "fst entry = d")
    case True
    have "fst ` set (AList.update k v (snd entry)) = insert k (fst ` set (snd entry))"
      by (simp add: dom_update)
    then have "(\<lambda>leaf. (d, fst leaf)) ` set (AList.update k v (snd entry))
        = insert (d, k) ((\<lambda>leaf. (d, fst leaf)) ` set (snd entry))"
      by (auto simp: image_iff)
    with True show ?thesis
      by (simp add: leaf_keys_simps)
  next
    case False
    with Cons show ?thesis
      by (auto simp: leaf_keys_simps)
  qed
qed

lemma distinct_leaf_keys_map_entry:
  "distinct (map fst m) \<Longrightarrow> distinct (leaf_keys m) \<Longrightarrow>
   distinct (leaf_keys (AList.map_entry d (AList.update k v) m))"
proof (induction m)
  case Nil
  then show ?case by simp
next
  case (Cons entry m)
  have inj: "inj_on (\<lambda>leaf. (c, fst leaf)) (set xs) \<longleftrightarrow> inj_on fst (set xs)"
    for xs :: "((int \<times> string) \<times> int) list" and c :: string
    by (auto simp: inj_on_def)
  show ?case
  proof (cases "fst entry = d")
    case True
    from Cons.prems(2) have "distinct (map fst (snd entry))"
      by (simp add: leaf_keys_simps distinct_map inj)
    then have "distinct (map fst (AList.update k v (snd entry)))"
      by (rule distinct_update)
    then have 1: "distinct (map (\<lambda>leaf. (d, fst leaf)) (AList.update k v (snd entry)))"
      using True by (simp add: distinct_map inj)
    have 2: "distinct (leaf_keys m)"
      using Cons.prems(2) by (simp add: leaf_keys_simps)
    have 3: "(d, k') \<notin> set (leaf_keys m)" for k'
      using Cons.prems(1) True leaf_keys_date [of d k' m] by auto
    from 1 2 3 True show ?thesis
      by (auto simp: leaf_keys_simps)
  next
    case False
    have "set (leaf_keys (AList.map_entry d (AList.update k v) m)) \<subseteq> insert (d, k) (set (leaf_keys m))"
    proof (cases "d \<in> fst ` set m")
      case True
      then show ?thesis by (simp add: set_leaf_keys_map_entry)
    next
      case False
      then have "AList.map_entry d (AList.update k v) m = m"
        by (induction m) auto
      then show ?thesis by auto
    qed
    with False Cons show ?thesis
      by (auto simp: leaf_keys_simps)
  qed
qed

text \<open>
  One store of the inner loop adds the path of its record, unless the path is there, and
  keeps the keys of both levels free of repetitions.
\<close>

lemma fresh_snow_store_keys:
  assumes "distinct (map fst m)"
  shows "distinct (map fst (fresh_snow_store d a e v m))"
    and "set (leaf_keys (fresh_snow_store d a e v m)) = insert (d, (a, e)) (set (leaf_keys m))"
    and "distinct (leaf_keys m) \<Longrightarrow> distinct (leaf_keys (fresh_snow_store d a e v m))"
proof -
  let ?m1 = "if map_of m d = None then AList.update d [] m else m"
  have store: "fresh_snow_store d a e v m = AList.map_entry d (AList.update (a, e) v) ?m1"
    by (simp add: fresh_snow_store_def)
  have keys1: "distinct (map fst ?m1)"
    using assms by (simp add: distinct_update)
  have dom1: "d \<in> fst ` set ?m1"
    by (auto simp: dom_update map_of_eq_None_iff)
  have leaf1: "leaf_keys ?m1 = leaf_keys m"
    by (simp add: map_of_eq_None_iff update_absent leaf_keys_simps)
  show "distinct (map fst (fresh_snow_store d a e v m))"
    unfolding store using keys1 by (rule distinct_map_entry)
  show "set (leaf_keys (fresh_snow_store d a e v m)) = insert (d, (a, e)) (set (leaf_keys m))"
    unfolding store using dom1 leaf1 by (simp add: set_leaf_keys_map_entry)
  show "distinct (leaf_keys (fresh_snow_store d a e v m))" if "distinct (leaf_keys m)"
    unfolding store using keys1 that leaf1 by (intro distinct_leaf_keys_map_entry) simp_all
qed

text \<open>
  In what follows \<open>xs\<close> is the sequence under \<^verbatim>\<open>fresh_snow_per_exposition\<close>, \<open>expo x\<close>
  and \<open>depths x\<close> are the exposition name and the depth records of its member \<open>x\<close>, and
  \<open>datef r\<close>, \<open>altf r\<close> and \<open>valf r\<close> the date, the altitude and the value of the depth
  record \<open>r\<close>.
\<close>

lemma get_fresh_snow_inner_keys:
  assumes "\<forall>r\<in>set ds. sd_date r = Some (datef r) \<and> sd_altitude r = Some (altf r)
             \<and> sd_value r = Some (valf r)"
    and "distinct (map fst m)" and "distinct (leaf_keys m)"
  shows "\<exists>m'. get_fresh_snow_inner e m ds = Inr m'
           \<and> distinct (map fst m') \<and> distinct (leaf_keys m')
           \<and> set (leaf_keys m') = set (leaf_keys m) \<union> (\<lambda>r. (datef r, altf r, e)) ` set ds"
  using assms
proof (induction ds arbitrary: m)
  case Nil
  then show ?case by simp
next
  case (Cons r ds)
  let ?m1 = "fresh_snow_store (datef r) (altf r) e (valf r) m"
  have step: "get_fresh_snow_inner e m (r # ds) = get_fresh_snow_inner e ?m1 ds"
    using Cons.prems(1) by (simp add: getitem_def ebind_def)
  have "\<exists>m'. get_fresh_snow_inner e ?m1 ds = Inr m'
           \<and> distinct (map fst m') \<and> distinct (leaf_keys m')
           \<and> set (leaf_keys m') = set (leaf_keys ?m1) \<union> (\<lambda>r. (datef r, altf r, e)) ` set ds"
    using Cons.prems by (intro Cons.IH) (simp_all add: fresh_snow_store_keys)
  then show ?case
    unfolding step using Cons.prems(2) by (auto simp: fresh_snow_store_keys(2))
qed

lemma get_fresh_snow_outer_keys:
  assumes "\<forall>x\<in>set xs. fs_exposition x = Some (expo x) \<and> fs_fresh_snow_depth x = Some (depths x)"
    and "\<forall>x\<in>set xs. \<forall>r\<in>set (depths x). sd_date r = Some (datef r)
           \<and> sd_altitude r = Some (altf r) \<and> sd_value r = Some (valf r)"
    and "distinct (map fst m)" and "distinct (leaf_keys m)"
  shows "\<exists>m'. get_fresh_snow_outer m xs = Inr m'
           \<and> distinct (map fst m') \<and> distinct (leaf_keys m')
           \<and> set (leaf_keys m') = set (leaf_keys m)
               \<union> set (concat (map (\<lambda>x. map (\<lambda>r. (datef r, altf r, expo x)) (depths x)) xs))"
  using assms
proof (induction xs arbitrary: m)
  case Nil
  then show ?case by simp
next
  case (Cons x xs)
  have "\<forall>r\<in>set (depths x). sd_date r = Some (datef r) \<and> sd_altitude r = Some (altf r)
          \<and> sd_value r = Some (valf r)"
    using Cons.prems(2) by simp
  from get_fresh_snow_inner_keys [OF this Cons.prems(3,4), of "expo x"]
  obtain m1 where m1: "get_fresh_snow_inner (expo x) m (depths x) = Inr m1"
      "distinct (map fst m1)" "distinct (leaf_keys m1)"
      "set (leaf_keys m1) = set (leaf_keys m) \<union> (\<lambda>r. (datef r, altf r, expo x)) ` set (depths x)"
    by blast
  have step: "get_fresh_snow_outer m (x # xs) = get_fresh_snow_outer m1 xs"
    using Cons.prems(1) m1(1) by (simp add: getitem_def ebind_def)
  have "\<exists>m'. get_fresh_snow_outer m1 xs = Inr m'
           \<and> distinct (map fst m') \<and> distinct (leaf_keys m')
           \<and> set (leaf_keys m') = set (leaf_keys m1)
               \<union> set (concat (map (\<lambda>x. map (\<lambda>r. (datef r, altf r, expo x)) (depths x)) xs))"
    using Cons.prems(1,2) m1(2,3) by (intro Cons.IH) simp_all
  then show ?case
    unfolding step m1(4) by (auto simp: Un_assoc)
qed

lemma length_fresh_snow_records:
  assumes "s_properties d = Some p" and "sp_fresh_snow_per_exposition p = Some xs"
    and "\<forall>x\<in>set xs. fs_exposition x = Some (expo x) \<and> fs_fresh_snow_depth x = Some (depths x)"
  shows "length (concat (map (\<lambda>x. map (\<lambda>r. (datef r, altf r, expo x)) (depths x)) xs))
           = length (fresh_snow_records d)"
proof -
  have eq: "map (\<lambda>x. case fs_fresh_snow_depth x of None \<Rightarrow> [] | Some ds \<Rightarrow> ds) xs = map depths xs"
    using assms(3) by simp
  have "fresh_snow_records d = concat (map depths xs)"
    unfolding fresh_snow_records_def using assms(1,2) by (simp only: option.case eq)
  then show ?thesis
    by (simp add: length_concat comp_def)
qed

text \<open>
  C2, as amended. On a snow document that has the keys of its fresh snow records, the
  number of leaf values of the mapping that \<^verbatim>\<open>get_fresh_snow\<close> returns is the number
  of distinct triples of date, altitude and exposition among the fresh snow depth records
  of all expositions (\<open>keys\<close> lists the triple of every record, in document order). It is
  the number of records when no two records share their triple.
\<close>

theorem get_fresh_snow_leaf_count:
  assumes "s_properties d = Some p" and "sp_fresh_snow_per_exposition p = Some xs"
    and "\<forall>x\<in>set xs. fs_exposition x = Some (expo x) \<and> fs_fresh_snow_depth x = Some (depths x)"
    and "\<forall>x\<in>set xs. \<forall>r\<in>set (depths x). sd_date r = Some (datef r)
           \<and> sd_altitude r = Some (altf r) \<and> sd_value r = Some (valf r)"
    and "keys = concat (map (\<lambda>x. map (\<lambda>r. (datef r, altf r, expo x)) (depths x)) xs)"
  shows "\<exists>fresh_snow_map. get_fresh_snow (Snow_init d) = Inr fresh_snow_map
           \<and> leaf_count fresh_snow_map = card (set keys)
           \<and> length keys = length (fresh_snow_records d)
           \<and> (distinct keys \<longrightarrow> leaf_count fresh_snow_map = length (fresh_snow_records d))"
proof -
  have run: "get_fresh_snow (Snow_init d) = get_fresh_snow_outer [] xs"
    using assms(1,2) by (simp add: get_fresh_snow_def Snow_init_def getitem_def ebind_def)
  from get_fresh_snow_outer_keys [OF assms(3,4), of "[]"]
  obtain m where m: "get_fresh_snow_outer [] xs = Inr m" "distinct (leaf_keys m)"
      "set (leaf_keys m) = set keys"
    unfolding assms(5) by (auto simp: leaf_keys_simps)
  have "leaf_count m = length (leaf_keys m)"
    by (simp add: length_leaf_keys)
  also have "\<dots> = card (set (leaf_keys m))"
    using m(2) by (simp only: distinct_card)
  finally have count: "leaf_count m = card (set keys)"
    using m(3) by simp
  have len: "length keys = length (fresh_snow_records d)"
    unfolding assms(5) using assms(1,2,3) by (rule length_fresh_snow_records)
  have "leaf_count m = length (fresh_snow_records d)" if "distinct keys"
    using that count len by (simp add: distinct_card)
  with run m(1) count len show ?thesis
    by simp
qed

lemma snow_example_get_fresh_snow:
  "get_fresh_snow (Snow_init snow_example)
     = Inr [(''2024-01-05'', [((1500, ''N''), 20), ((1500, ''S''), 7)]),
            (''2024-01-06'', [((2000, ''N''), 5)])]"
  by (simp add: get_fresh_snow_def Snow_init_def snow_example_def snow_example_properties_def
        depth_def fresh_snow_store_def getitem_def ebind_def)

text \<open>
  C2 as stated fails on the example: of its four fresh snow depth records, two of the
  exposition \<^verbatim>\<open>N\<close> have the date 2024-01-05 and the altitude 1500, the second replaces
  the first, and the mapping has three leaf values.
\<close>

theorem get_fresh_snow_leaf_count_counterexample:
  "get_fresh_snow (Snow_init snow_example)
     = Inr [(''2024-01-05'', [((1500, ''N''), 20), ((1500, ''S''), 7)]),
            (''2024-01-06'', [((2000, ''N''), 5)])]
   \<and> leaf_count [(''2024-01-05'', [((1500, ''N''), 20), ((1500, ''S''), 7)]),
                 (''2024-01-06'', [((2000, ''N''), 5)])] = 3
   \<and> length (fresh_snow_records snow_example) = 4"
proof -
  have "length (fresh_snow_records snow_example) = 4"
    by (simp add: fresh_snow_records_def snow_example_def snow_example_properties_def)
  then show ?thesis
    by (simp add: snow_example_get_fresh_snow leaf_count_def)
qed

text \<open>The example whose four records have four different triples: four leaf values.\<close>

lemma snow_fresh_distinct_keys:
  "s_properties snow_fresh_distinct = Some (the (s_properties snow_fresh_distinct))"
  "sp_fresh_snow_per_exposition (the (s_properties snow_fresh_distinct))
     = Some (the (sp_fresh_snow_per_exposition (the (s_properties snow_fresh_distinct))))"
  "\<forall>x\<in>set (the (sp_fresh_snow_per_exposition (the (s_properties snow_fresh_distinct)))).
     fs_exposition x = Some (the (fs_exposition x))
     \<and> fs_fresh_snow_depth x = Some (the (fs_fresh_snow_depth x))"
  "\<forall>x\<in>set (the (sp_fresh_snow_per_exposition (the (s_properties snow_fresh_distinct)))).
     \<forall>r\<in>set (the (fs_fresh_snow_depth x)).
       sd_date r = Some (the (sd_date r)) \<and> sd_altitude r = Some (the (sd_altitude r))
       \<and> sd_value r = Some (the (sd_value r))"
  by (simp_all add: snow_fresh_distinct_def snow_example_properties_def depth_def)

theorem get_fresh_snow_leaf_count_witness:
  "\<exists>fresh_snow_map. get_fresh_snow (Snow_init snow_fresh_distinct) = Inr fresh_snow_map
      \<and> leaf_count fresh_snow_map = 4
      \<and> length (fresh_snow_records snow_fresh_distinct) = 4"
proof -
  let ?xs = "the (sp_fresh_snow_per_exposition (the (s_properties snow_fresh_distinct)))"
  let ?keys = "concat (map (\<lambda>x. map (\<lambda>r. (the (sd_date r), the (sd_altitude r),
      the (fs_exposition x))) (the (fs_fresh_snow_depth x))) ?xs)"
  have keys: "?keys = [(''2024-01-05'', 1500, ''N''), (''2024-01-05'', 2000, ''N''),
      (''2024-01-06'', 1500, ''N''), (''2024-01-05'', 1500, ''S'')]"
    by (simp add: snow_fresh_distinct_def snow_example_properties_def depth_def)
  have dist: "distinct ?keys"
    unfolding keys by simp
  obtain m where m: "get_fresh_snow (Snow_init snow_fresh_distinct) = Inr m"
      "length ?keys = length (fresh_snow_records snow_fresh_distinct)"
      "distinct ?keys \<longrightarrow> leaf_count m = length (fresh_snow_records snow_fresh_distinct)"
    using get_fresh_snow_leaf_count [OF snow_fresh_distinct_keys refl] by blast
  from m(2) have "length (fresh_snow_records snow_fresh_distinct) = 4"
    unfolding keys by simp
  with m(1,3) dist show ?thesis
    by simp
qed

section \<open>Construction, and the keys that a call reads\<close>

subsection \<open>The outcome of a call as the keys decide it\<close>

lemma key_outcome_Inr: "key_outcome (Inr v) {}"
  by (simp add: key_outcome_def)

lemma key_outcome_empty: "key_outcome result {} \<longleftrightarrow> (\<exists>v. result = Inr v)"
  by (simp add: key_outcome_def)

lemma key_outcome_KeyError: "k \<in> missing \<Longrightarrow> key_outcome (Inl (KeyError k)) missing"
  by (auto simp: key_outcome_def)

lemma key_outcome_map_sum: "key_outcome (map_sum id f result) missing = key_outcome result missing"
  by (cases result) (auto simp: key_outcome_def)

lemma key_outcome_superset:
  assumes "key_outcome result A" and "A \<subseteq> B" and "A = {} \<Longrightarrow> B = {}"
  shows "key_outcome result B"
  using assms by (auto simp: key_outcome_def split: if_splits)

lemma key_outcome_absent: "key_outcome (getitem k field) (absent k field)"
  by (cases field) (simp_all add: key_outcome_def absent_def getitem_def)

lemma key_outcome_missing_in:
  assumes "\<And>v. field = Some v \<Longrightarrow> key_outcome (f v) (inside v)"
  shows "key_outcome (ebind (getitem k field) f) (missing_in k field inside)"
  using assms
  by (cases field) (simp_all add: key_outcome_def missing_in_def getitem_def ebind_def)

lemma key_outcome_bind:
  assumes "key_outcome result A" and "\<And>v. result = Inr v \<Longrightarrow> key_outcome (f v) B"
  shows "key_outcome (ebind result f) (A \<union> B)"
proof (cases "A = {}")
  case True
  with assms show ?thesis
    by (auto simp: key_outcome_empty ebind_def)
next
  case False
  with assms(1) obtain k where "k \<in> A" "result = Inl (KeyError k)"
    by (auto simp: key_outcome_def)
  then show ?thesis
    by (auto simp: ebind_def intro: key_outcome_KeyError)
qed

lemma key_outcome_step:
  assumes "key_outcome step A" and "\<And>v. step = Inr v \<Longrightarrow> key_outcome (f v) (\<Union>x\<in>set xs. M x)"
    and "A = M x"
  shows "key_outcome (ebind step f) (\<Union>x\<in>set (x # xs). M x)"
  using key_outcome_bind [OF assms(1,2)] assms(3) by simp


lemma absent_simps:
  "absent k None = {k}" "absent k (Some v) = {}"
  "missing_in k None inside = {k}" "missing_in k (Some v) inside = inside v"
  by (simp_all add: absent_def missing_in_def)

subsection \<open>Scans that read every entry\<close>

lemma key_outcome_get_available_altitudes_inner:
  "key_outcome (get_available_altitudes_inner S ds) (\<Union>r\<in>set ds. absent ''altitude'' (sd_altitude r))"
proof (induction ds arbitrary: S)
  case Nil
  show ?case by (simp add: key_outcome_Inr)
next
  case (Cons r ds)
  show ?case
    by (cases "sd_altitude r")
       (simp_all add: absent_simps getitem_def ebind_def key_outcome_KeyError Cons.IH)
qed

lemma key_outcome_get_available_altitudes_outer:
  "key_outcome (get_available_altitudes_outer S xs)
     (\<Union>x\<in>set xs. missing_in ''total_snow_depth'' (ts_total_snow_depth x)
        (\<lambda>ds. \<Union>r\<in>set ds. absent ''altitude'' (sd_altitude r)))"
proof (induction xs arbitrary: S)
  case Nil
  show ?case by (simp add: key_outcome_Inr)
next
  case (Cons x xs)
  show ?case
  proof (cases "ts_total_snow_depth x")
    case None
    then show ?thesis
      by (simp add: absent_simps getitem_def ebind_def key_outcome_KeyError)
  next
    case (Some ds)
    have "key_outcome (ebind (get_available_altitudes_inner S ds)
        (\<lambda>S'. get_available_altitudes_outer S' xs))
      ((\<Union>r\<in>set ds. absent ''altitude'' (sd_altitude r))
        \<union> (\<Union>x\<in>set xs. missing_in ''total_snow_depth'' (ts_total_snow_depth x)
             (\<lambda>ds. \<Union>r\<in>set ds. absent ''altitude'' (sd_altitude r))))"
      by (rule key_outcome_bind [OF key_outcome_get_available_altitudes_inner Cons.IH])
    with Some show ?thesis
      by (simp add: absent_simps getitem_def ebind_Inr)
  qed
qed

lemma key_outcome_get_snow_depths_inner:
  "key_outcome (get_snow_depths_inner e acc ds)
     (\<Union>r\<in>set ds. absent ''altitude'' (sd_altitude r) \<union> absent ''value'' (sd_value r))"
proof (induction ds arbitrary: acc)
  case Nil
  show ?case by (simp add: key_outcome_Inr)
next
  case (Cons r ds)
  show ?case
    by (cases "sd_altitude r"; cases "sd_value r")
       (simp_all add: absent_simps getitem_def ebind_def key_outcome_KeyError Cons.IH)
qed

lemma key_outcome_get_snow_depths_outer:
  "key_outcome (get_snow_depths_outer acc xs)
     (\<Union>x\<in>set xs. absent ''exposition'' (ts_exposition x)
        \<union> missing_in ''total_snow_depth'' (ts_total_snow_depth x)
            (\<lambda>ds. \<Union>r\<in>set ds. absent ''altitude'' (sd_altitude r) \<union> absent ''value'' (sd_value r)))"
proof (induction xs arbitrary: acc)
  case Nil
  show ?case by (simp add: key_outcome_Inr)
next
  case (Cons x xs)
  show ?case
  proof (cases "ts_exposition x")
    case None
    then show ?thesis
      by (simp add: absent_simps getitem_def ebind_def key_outcome_KeyError)
  next
    case e: (Some e)
    show ?thesis
    proof (cases "ts_total_snow_depth x")
      case None
      then show ?thesis
        using e by (simp add: absent_simps getitem_def ebind_def key_outcome_KeyError)
    next
      case (Some ds)
      have "key_outcome (ebind (get_snow_depths_inner e acc ds)
          (\<lambda>acc'. get_snow_depths_outer acc' xs))
        ((\<Union>r\<in>set ds. absent ''altitude'' (sd_altitude r) \<union> absent ''value'' (sd_value r))
          \<union> (\<Union>x\<in>set xs. absent ''exposition'' (ts_exposition x)
              \<union> missing_in ''total_snow_depth'' (ts_total_snow_depth x)
                  (\<lambda>ds. \<Union>r\<in>set ds. absent ''altitude'' (sd_altitude r)
                     \<union> absent ''value'' (sd_value r))))"
        by (rule key_outcome_bind [OF key_outcome_get_snow_depths_inner Cons.IH])
      with e Some show ?thesis
        by (simp add: absent_simps getitem_def ebind_Inr)
    qed
  qed
qed

lemma key_outcome_get_snow_limits_loop:
  "key_outcome (get_snow_limits_loop acc xs)
     (\<Union>x\<in>set xs. absent ''exposition'' (ts_exposition x) \<union> absent ''snow_limit'' (ts_snow_limit x))"
proof (induction xs arbitrary: acc)
  case Nil
  show ?case by (simp add: key_outcome_Inr)
next
  case (Cons x xs)
  show ?case
    by (cases "ts_exposition x"; cases "ts_snow_limit x")
       (simp_all add: absent_simps getitem_def ebind_def key_outcome_KeyError Cons.IH)
qed

lemma key_outcome_get_avalanche_risks_loop:
  "key_outcome (get_avalanche_risks_loop acc rs)
     (\<Union>r\<in>set rs. missing_in ''location'' (arl_location r) (\<lambda>l. absent ''value'' (loc_value l))
        \<union> absent ''avalanche_risk'' (arl_avalanche_risk r))"
proof (induction rs arbitrary: acc)
  case Nil
  show ?case by (simp add: key_outcome_Inr)
next
  case (Cons r rs)
  show ?case
  proof (cases "arl_location r")
    case None
    then show ?thesis
      by (simp add: absent_simps getitem_def ebind_def key_outcome_KeyError)
  next
    case (Some l)
    then show ?thesis
      by (cases "loc_value l"; cases "arl_avalanche_risk r")
         (simp_all add: absent_simps getitem_def ebind_def key_outcome_KeyError
            Cons.IH)
  qed
qed

lemma key_outcome_get_fresh_snow_inner:
  "key_outcome (get_fresh_snow_inner e m ds)
     (\<Union>r\<in>set ds. absent ''date'' (sd_date r) \<union> absent ''altitude'' (sd_altitude r)
        \<union> absent ''value'' (sd_value r))"
proof (induction ds arbitrary: m)
  case Nil
  show ?case by (simp add: key_outcome_Inr)
next
  case (Cons r ds)
  show ?case
    by (cases "sd_date r"; cases "sd_altitude r"; cases "sd_value r")
       (simp_all add: absent_simps getitem_def ebind_def key_outcome_KeyError Cons.IH)
qed

lemma key_outcome_get_fresh_snow_outer:
  "key_outcome (get_fresh_snow_outer m xs)
     (\<Union>x\<in>set xs. absent ''exposition'' (fs_exposition x)
        \<union> missing_in ''fresh_snow_depth'' (fs_fresh_snow_depth x)
            (\<lambda>ds. \<Union>r\<in>set ds. absent ''date'' (sd_date r) \<union> absent ''altitude'' (sd_altitude r)
               \<union> absent ''value'' (sd_value r)))"
proof (induction xs arbitrary: m)
  case Nil
  show ?case by (simp add: key_outcome_Inr)
next
  case (Cons x xs)
  show ?case
  proof (cases "fs_exposition x")
    case None
    then show ?thesis
      by (simp add: absent_simps getitem_def ebind_def key_outcome_KeyError)
  next
    case e: (Some e)
    show ?thesis
    proof (cases "fs_fresh_snow_depth x")
      case None
      then show ?thesis
        using e by (simp add: absent_simps getitem_def ebind_def key_outcome_KeyError)
    next
      case (Some ds)
      have "key_outcome (ebind (get_fresh_snow_inner e m ds) (\<lambda>m'. get_fresh_snow_outer m' xs))
        ((\<Union>r\<in>set ds. absent ''date'' (sd_date r) \<union> absent ''altitude'' (sd_altitude r)
            \<union> absent ''value'' (sd_value r))
          \<union> (\<Union>x\<in>set xs. absent ''exposition'' (fs_exposition x)
              \<union> missing_in ''fresh_snow_depth'' (fs_fresh_snow_depth x)
                  (\<lambda>ds. \<Union>r\<in>set ds. absent ''date'' (sd_date r)
                     \<union> absent ''altitude'' (sd_altitude r) \<union> absent ''value'' (sd_value r))))"
        by (rule key_outcome_bind [OF key_outcome_get_fresh_snow_inner Cons.IH])
      with e Some show ?thesis
        by (simp add: absent_simps getitem_def ebind_Inr)
    qed
  qed
qed

subsection \<open>Scans that return at the first match\<close>

lemma key_outcome_get_avalanche_risk_by_location_value_loop:
  "key_outcome (get_avalanche_risk_by_location_value_loop v rs)
     (\<Union>r\<in>set (until_first (at_location v) rs).
        missing_in ''location'' (arl_location r) (\<lambda>l.
          missing_in ''value'' (loc_value l) (\<lambda>x.
            if x = v then absent ''avalanche_risk'' (arl_avalanche_risk r) else {})))"
proof (induction rs)
  case Nil
  show ?case by (simp add: key_outcome_Inr)
next
  case (Cons r rs)
  show ?case
  proof (cases "arl_location r")
    case None
    then have "\<not> at_location v r"
      by (simp add: at_location_def)
    with None show ?thesis
      by (simp add: absent_simps getitem_def ebind_def key_outcome_KeyError)
  next
    case (Some l)
    then have hit: "at_location v r \<longleftrightarrow> loc_value l = Some v"
      by (simp add: at_location_def)
    from Some show ?thesis
      by (cases "loc_value l"; cases "arl_avalanche_risk r")
         (simp_all add: hit absent_simps getitem_def ebind_def
            key_outcome_KeyError key_outcome_Inr Cons.IH)
  qed
qed

lemma get_snow_depth_at_altitude_inner_hit:
  "get_snow_depth_at_altitude_inner a ds = Inr found \<Longrightarrow>
   (found \<noteq> None) = list_ex (at_altitude a) ds"
proof (induction ds)
  case Nil
  then show ?case by auto
next
  case (Cons r ds)
  show ?case
  proof (cases "sd_altitude r")
    case None
    with Cons.prems show ?thesis
      by (simp add: getitem_def ebind_def)
  next
    case (Some x)
    show ?thesis
    proof (cases "x = a")
      case True
      with Some Cons.prems show ?thesis
        by (cases "sd_value r") (auto simp: at_altitude_def getitem_def ebind_def)
    next
      case False
      with Some Cons.prems have "get_snow_depth_at_altitude_inner a ds = Inr found"
        by (simp add: getitem_def ebind_def)
      then have "(found \<noteq> None) = list_ex (at_altitude a) ds"
        by (rule Cons.IH)
      moreover have "\<not> at_altitude a r"
        using Some False by (simp add: at_altitude_def)
      ultimately show ?thesis
        by simp
    qed
  qed
qed

lemma key_outcome_get_snow_depth_at_altitude_inner:
  "key_outcome (get_snow_depth_at_altitude_inner a ds)
     (\<Union>r\<in>set (until_first (at_altitude a) ds).
        missing_in ''altitude'' (sd_altitude r) (\<lambda>v.
          if v = a then absent ''value'' (sd_value r) else {}))"
proof (induction ds)
  case Nil
  show ?case by (simp add: key_outcome_Inr)
next
  case (Cons r ds)
  have hit: "at_altitude a r \<longleftrightarrow> sd_altitude r = Some a"
    by (simp add: at_altitude_def)
  show ?case
    by (cases "sd_altitude r"; cases "sd_value r")
       (simp_all add: hit absent_simps getitem_def ebind_def
          key_outcome_KeyError key_outcome_Inr Cons.IH)
qed

lemma key_outcome_get_snow_depth_at_altitude_outer:
  "key_outcome (get_snow_depth_at_altitude_outer a xs)
     (\<Union>x\<in>set (until_first (has_altitude a) xs).
        missing_in ''total_snow_depth'' (ts_total_snow_depth x) (\<lambda>ds.
          \<Union>r\<in>set (until_first (at_altitude a) ds).
            missing_in ''altitude'' (sd_altitude r) (\<lambda>v.
              if v = a then absent ''value'' (sd_value r) else {})))"
  (is "key_outcome _ (?M xs)")
proof (induction xs)
  case Nil
  show ?case by (simp add: key_outcome_Inr)
next
  case (Cons x xs)
  show ?case
  proof (cases "ts_total_snow_depth x")
    case None
    then have "\<not> has_altitude a x"
      by (simp add: has_altitude_def)
    with None show ?thesis
      by (simp add: absent_simps getitem_def ebind_def key_outcome_KeyError)
  next
    case (Some ds)
    let ?I = "\<Union>r\<in>set (until_first (at_altitude a) ds).
        missing_in ''altitude'' (sd_altitude r) (\<lambda>v.
          if v = a then absent ''value'' (sd_value r) else {})"
    have inner: "key_outcome (get_snow_depth_at_altitude_inner a ds) ?I"
      by (rule key_outcome_get_snow_depth_at_altitude_inner)
    have run: "get_snow_depth_at_altitude_outer a (x # xs)
        = ebind (get_snow_depth_at_altitude_inner a ds) (\<lambda>found.
            case found of Some v \<Rightarrow> Inr (Some v)
            | None \<Rightarrow> get_snow_depth_at_altitude_outer a xs)"
      using Some by (simp add: getitem_def ebind_Inr)
    show ?thesis
    proof (cases "has_altitude a x")
      case True
      then have hit: "list_ex (at_altitude a) ds"
        using Some by (simp add: has_altitude_def)
      have M: "?M (x # xs) = ?I"
        using True Some by (simp add: absent_simps)
      have "key_outcome (get_snow_depth_at_altitude_outer a (x # xs)) (?I \<union> {})"
        unfolding run
      proof (rule key_outcome_bind [OF inner])
        fix found
        assume "get_snow_depth_at_altitude_inner a ds = Inr found"
        then have "found \<noteq> None"
          using hit get_snow_depth_at_altitude_inner_hit by blast
        then show "key_outcome (case found of Some v \<Rightarrow> Inr (Some v)
            | None \<Rightarrow> get_snow_depth_at_altitude_outer a xs) {}"
          by (auto simp: key_outcome_Inr)
      qed
      then show ?thesis
        unfolding M by simp
    next
      case False
      then have nohit: "\<not> list_ex (at_altitude a) ds"
        using Some by (simp add: has_altitude_def)
      have M: "?M (x # xs) = ?I \<union> ?M xs"
        using False Some by (simp add: absent_simps)
      have "key_outcome (get_snow_depth_at_altitude_outer a (x # xs)) (?I \<union> ?M xs)"
        unfolding run
      proof (rule key_outcome_bind [OF inner])
        fix found
        assume "get_snow_depth_at_altitude_inner a ds = Inr found"
        with nohit have "found = None"
          using get_snow_depth_at_altitude_inner_hit by blast
        then show "key_outcome (case found of Some v \<Rightarrow> Inr (Some v)
            | None \<Rightarrow> get_snow_depth_at_altitude_outer a xs) (?M xs)"
          using Cons.IH by simp
      qed
      then show ?thesis
        unfolding M .
    qed
  qed
qed

lemma key_outcome_next_rain_date_locale_loop:
  assumes "timezone self = getitem ''timezone'' tzfield"
  shows "key_outcome (next_rain_date_locale_loop (\<lambda>t tz. Inr (loc t tz)) self fs)
     (\<Union>e\<in>set (until_first rainy fs).
        absent ''time'' (f_time e) \<union> absent ''timezone'' tzfield
          \<union> absent ''rain_intensity'' (f_rain_intensity e))"
proof (induction fs)
  case Nil
  show ?case by (simp add: key_outcome_Inr)
next
  case (Cons e fs)
  have hit: "rainy e \<longleftrightarrow> (\<exists>i. f_rain_intensity e = Some i \<and> 1 < i)"
    by (cases "f_rain_intensity e") (simp_all add: rainy_def)
  show ?case
    by (insert Cons.IH, cases "f_time e"; cases tzfield; cases "f_rain_intensity e")
       (simp_all add: hit absent_simps getitem_def ebind_def timestamp_to_locale_time_def
          assms key_outcome_KeyError key_outcome_Inr)
qed


subsection \<open>Every call\<close>

lemma key_outcome_returns:
  "key_outcome result missing \<Longrightarrow> key_outcome (ebind result (\<lambda>v. Inr (f v))) missing"
  using key_outcome_bind [of result missing "\<lambda>v. Inr (f v)" "{}"]
  by (simp add: key_outcome_Inr)

lemma key_outcome_Snow_call: "key_outcome (Snow_call sc (Snow_init sd)) (snow_missing sc sd)"
proof -
  note unfold = key_outcome_map_sum Snow_init_def absent_simps getitem_None getitem_Some
    ebind_Inl ebind_Inr key_outcome_KeyError key_outcome_Inr
  note total = get_snow_depth_at_altitude_def get_available_altitudes_def get_snow_depths_def
    get_snow_limits_def
  note risks = get_avalanche_risk_by_location_value_def get_avalanche_risks_def
    get_max_avalanche_risk_def
  show ?thesis
  proof (cases "s_properties sd")
    case None
    then show ?thesis
      by (cases sc) (simp_all add: unfold total risks get_massif_name_def get_fresh_snow_def)
  next
    case p: (Some p)
    have scalar: "key_outcome (Snow_call Call_get_massif_name (Snow_init sd))
        (snow_missing Call_get_massif_name sd)"
      using p by (cases "sp_massif_name p") (simp_all add: unfold get_massif_name_def)
    have fresh: "key_outcome (Snow_call Call_get_fresh_snow (Snow_init sd))
        (snow_missing Call_get_fresh_snow sd)"
      using p
      by (cases "sp_fresh_snow_per_exposition p")
         (simp_all add: unfold get_fresh_snow_def key_outcome_get_fresh_snow_outer)
    have total_snow: "key_outcome (Snow_call sc (Snow_init sd)) (snow_missing sc sd)"
      if "sc = Call_get_snow_depth_at_altitude a \<or> sc = Call_get_available_altitudes
          \<or> sc = Call_get_snow_depths \<or> sc = Call_get_snow_limits" for a
    proof (cases "sp_total_snow_per_exposition p")
      case None
      with p that show ?thesis
        by (auto simp: unfold total)
    next
      case (Some xs)
      with p that show ?thesis
        by (auto simp: unfold total key_outcome_get_snow_depth_at_altitude_outer
              key_outcome_get_snow_depths_outer key_outcome_get_snow_limits_loop
              intro!: key_outcome_returns key_outcome_get_available_altitudes_outer)
    qed
    have avalanche: "key_outcome (Snow_call sc (Snow_init sd)) (snow_missing sc sd)"
      if "sc = Call_get_max_avalanche_risk \<or> sc = Call_get_avalanche_risk_by_location_value v
          \<or> sc = Call_get_avalanche_risks" for v
    proof (cases "sp_massif_avalanche_risk p")
      case None
      with p that show ?thesis
        by (auto simp: unfold risks)
    next
      case m: (Some m)
      show ?thesis
      proof (cases "mar_avalanche_risk_per_location m")
        case None
        with p m that show ?thesis
          by (cases "mar_avalanche_risk_max m") (auto simp: unfold risks)
      next
        case (Some rs)
        with p m that show ?thesis
          by (cases "mar_avalanche_risk_max m")
             (auto simp: unfold risks key_outcome_get_avalanche_risk_by_location_value_loop
                key_outcome_get_avalanche_risks_loop)
      qed
    qed
    show ?thesis
      using scalar fresh total_snow avalanche by (cases sc) blast+
  qed
qed

lemma key_outcome_Rain_call:
  "key_outcome (Rain_call (\<lambda>t tz. Inr (loc t tz)) rc (Rain_init rd)) (rain_missing rc rd)"
proof -
  note unfold = key_outcome_map_sum Rain_init_def absent_simps getitem_None getitem_Some
    ebind_Inl ebind_Inr key_outcome_KeyError key_outcome_Inr
  note props = altitude_def location_name_def country_def french_department_def
    rain_product_available_def timezone_def confidence_def forecasts_def
    timestamp_to_locale_time_def next_rain_date_locale_def
  have geo: "key_outcome (Rain_call (\<lambda>t tz. Inr (loc t tz)) Get_geometry (Rain_init rd))
      (rain_missing Get_geometry rd)"
    by (cases "rd_geometry rd") (simp_all add: unfold geometry_def)
  show ?thesis
  proof (cases "rd_properties rd")
    case None
    then have "key_outcome (Rain_call (\<lambda>t tz. Inr (loc t tz)) Get_update_time (Rain_init rd))
        (rain_missing Get_update_time rd)"
      by (cases "rd_update_time rd") (simp_all add: unfold props update_time_def)
    with None geo show ?thesis
      by (cases rc) (simp_all add: unfold props)
  next
    case p: (Some p)
    have tz: "timezone (Rain_init rd) = getitem ''timezone'' (rp_timezone p)"
      using p by (simp add: timezone_def Rain_init_def getitem_Some ebind_Inr)
    have upd: "key_outcome (Rain_call (\<lambda>t tz. Inr (loc t tz)) Get_update_time (Rain_init rd))
        (rain_missing Get_update_time rd)"
      using p
      by (cases "rd_update_time rd"; cases "rp_timezone p")
         (simp_all add: unfold props update_time_def)
    have next_rain: "key_outcome
        (Rain_call (\<lambda>t tz. Inr (loc t tz)) Call_next_rain_date_locale (Rain_init rd))
        (rain_missing Call_next_rain_date_locale rd)"
    proof (cases "rp_forecast p")
      case None
      with p show ?thesis
        by (simp add: unfold props)
    next
      case (Some fs)
      have "forecasts (Rain_init rd) = Inr fs"
        using p Some by (rule forecasts_Rain_init)
      with p Some show ?thesis
        using key_outcome_next_rain_date_locale_loop [OF tz, of loc fs]
        by (simp add: key_outcome_map_sum next_rain_date_locale_def ebind_Inr absent_simps)
    qed
    have tl: "key_outcome
        (Rain_call (\<lambda>t tz. Inr (loc t tz)) (Call_timestamp_to_locale_time t) (Rain_init rd))
        (rain_missing (Call_timestamp_to_locale_time t) rd)" for t
      using p by (cases "rp_timezone p") (simp_all add: unfold props)
    have alt: "key_outcome (Rain_call (\<lambda>t tz. Inr (loc t tz)) Get_altitude (Rain_init rd))
        (rain_missing Get_altitude rd)"
      using p by (cases "rp_altitude p") (simp_all add: unfold props)
    have name: "key_outcome (Rain_call (\<lambda>t tz. Inr (loc t tz)) Get_location_name (Rain_init rd))
        (rain_missing Get_location_name rd)"
      using p by (cases "rp_name p") (simp_all add: unfold props)
    have ctry: "key_outcome (Rain_call (\<lambda>t tz. Inr (loc t tz)) Get_country (Rain_init rd))
        (rain_missing Get_country rd)"
      using p by (cases "rp_country p") (simp_all add: unfold props)
    have dept: "key_outcome
        (Rain_call (\<lambda>t tz. Inr (loc t tz)) Get_french_department (Rain_init rd))
        (rain_missing Get_french_department rd)"
      using p by (cases "rp_french_department p") (simp_all add: unfold props)
    have prod: "key_outcome
        (Rain_call (\<lambda>t tz. Inr (loc t tz)) Get_rain_product_available (Rain_init rd))
        (rain_missing Get_rain_product_available rd)"
      using p by (cases "rp_rain_product_available p") (simp_all add: unfold props)
    have zone: "key_outcome (Rain_call (\<lambda>t tz. Inr (loc t tz)) Get_timezone (Rain_init rd))
        (rain_missing Get_timezone rd)"
      using p by (cases "rp_timezone p") (simp_all add: unfold props)
    have conf: "key_outcome (Rain_call (\<lambda>t tz. Inr (loc t tz)) Get_confidence (Rain_init rd))
        (rain_missing Get_confidence rd)"
      using p by (cases "rp_confidence p") (simp_all add: unfold props)
    have fcst: "key_outcome (Rain_call (\<lambda>t tz. Inr (loc t tz)) Get_forecasts (Rain_init rd))
        (rain_missing Get_forecasts rd)"
      using p by (cases "rp_forecast p") (simp_all add: unfold props)
    show ?thesis
      by (cases rc) (simp_all only: geo upd next_rain tl alt name ctry dept prod zone conf fcst)
  qed
qed


text \<open>
  C7. Constructing a \<^verbatim>\<open>Rain\<close> or a \<^verbatim>\<open>Snow\<close> wrapper succeeds on every document,
  whatever keys it lacks, and stores the document as it is: nothing is validated. A
  missing key shows only at a call that reads it: every call of a property or a method
  (\<open>rc\<close> on the rain wrapper, \<open>sc\<close> on the snow wrapper) returns when the document has
  every key that the call reads, and otherwise fails with the \<^verbatim>\<open>KeyError\<close> of a key that
  the call reads and the document lacks. The keys that a call reads are those of
  \<open>rain_missing\<close> and \<open>snow_missing\<close>: the keys on its path and, for a scan, the keys of
  the entries it visits, which for a query that returns at its first match are the
  entries up to that match. The time helper is one that does not fail, so that a failure
  is a missing key.
\<close>

theorem missing_key_fails_at_the_call:
  "rain_raw_data (Rain_init rd) = rd
   \<and> snow_raw_data (Snow_init sd) = sd
   \<and> key_outcome (Rain_call (\<lambda>t tz. Inr (loc t tz)) rc (Rain_init rd)) (rain_missing rc rd)
   \<and> key_outcome (Snow_call sc (Snow_init sd)) (snow_missing sc sd)"
  using key_outcome_Rain_call [of loc rc rd] key_outcome_Snow_call [of sc sd]
  by (simp add: Rain_init_def Snow_init_def)

text \<open>
  The documents with no key at all are wrapped, and the first call on the wrapper fails.
  In the snow document whose second record lacks its altitude, the query for the altitude
  of the first record returns, while the query for another altitude and the list of the
  altitudes fail.
\<close>

lemma key_outcome_singleton: "key_outcome result {k} \<longleftrightarrow> result = Inl (KeyError k)"
  by (simp add: key_outcome_def)

theorem missing_key_fails_at_the_call_witness:
  "rain_raw_data (Rain_init rain_no_keys) = rain_no_keys
   \<and> snow_raw_data (Snow_init snow_no_keys) = snow_no_keys
   \<and> Rain_call (\<lambda>t tz. Inr t) Call_next_rain_date_locale (Rain_init rain_no_keys)
       = Inl (KeyError ''properties'')
   \<and> Snow_call Call_get_fresh_snow (Snow_init snow_no_keys) = Inl (KeyError ''properties'')
   \<and> (\<exists>v. Snow_call (Call_get_snow_depth_at_altitude 1500)
              (Snow_init snow_record_without_altitude) = Inr v)
   \<and> Snow_call (Call_get_snow_depth_at_altitude 2000) (Snow_init snow_record_without_altitude)
       = Inl (KeyError ''altitude'')
   \<and> Snow_call Call_get_available_altitudes (Snow_init snow_record_without_altitude)
       = Inl (KeyError ''altitude'')"
proof -
  have 1: "rain_missing Call_next_rain_date_locale rain_no_keys = {''properties''}"
    by (simp add: rain_no_keys_def absent_simps)
  have 2: "snow_missing Call_get_fresh_snow snow_no_keys = {''properties''}"
    by (simp add: snow_no_keys_def absent_simps)
  have 3: "snow_missing (Call_get_snow_depth_at_altitude 1500) snow_record_without_altitude = {}"
    by (simp add: snow_record_without_altitude_def snow_example_properties_def depth_def
          absent_simps has_altitude_def at_altitude_def)
  have 4: "snow_missing (Call_get_snow_depth_at_altitude 2000) snow_record_without_altitude
      = {''altitude''}"
    by (simp add: snow_record_without_altitude_def snow_example_properties_def depth_def
          absent_simps has_altitude_def at_altitude_def)
  have 5: "snow_missing Call_get_available_altitudes snow_record_without_altitude = {''altitude''}"
    by (simp add: snow_record_without_altitude_def snow_example_properties_def depth_def
          absent_simps)
  show ?thesis
    using missing_key_fails_at_the_call
            [of rain_no_keys snow_no_keys "\<lambda>t tz. t" Call_next_rain_date_locale Call_get_fresh_snow]
      missing_key_fails_at_the_call
            [of rain_no_keys snow_record_without_altitude "\<lambda>t tz. t" Get_altitude
               "Call_get_snow_depth_at_altitude 1500"]
      missing_key_fails_at_the_call
            [of rain_no_keys snow_record_without_altitude "\<lambda>t tz. t" Get_altitude
               "Call_get_snow_depth_at_altitude 2000"]
      missing_key_fails_at_the_call
            [of rain_no_keys snow_record_without_altitude "\<lambda>t tz. t" Get_altitude
               Call_get_available_altitudes]
    unfolding 1 2 3 4 5 key_outcome_singleton key_outcome_empty
    by simp
qed

end
